theory Spec2Isabelle
  imports Main "HOL-Library.Sublist"
begin

text \<open>
  A model of \<^verbatim>\<open>scrape_company_profile\<close> of \<^verbatim>\<open>webScraper.py\<close>: the function fetches the
  main page of a company, reads a profile out of the parsed page with keyword and
  pattern rules, and fetches up to two more pages (a blog page, the About page) for the
  articles and the description. The model follows the function part by part; the line
  numbers are those of the source file.
\<close>

section \<open>Python strings\<close>

text \<open>
  A Python \<^verbatim>\<open>str\<close> is a sequence of Unicode code points: \<open>pystr\<close> is the list of their
  numbers (\<^verbatim>\<open>ord\<close>), so \<open>length\<close> is Python's \<^verbatim>\<open>len\<close> and a slice \<^verbatim>\<open>s[:n]\<close> is \<open>take n s\<close>.
  \<open>str\<close> turns an ASCII literal of the source into such a string.
\<close>

type_synonym codepoint = int

type_synonym pystr = "codepoint list"

definition str :: "string \<Rightarrow> pystr" where
  "str s = map of_char s"

text \<open>
  The code points for which \<^verbatim>\<open>str.isspace()\<close> holds. \<^verbatim>\<open>str.strip()\<close> removes them at both
  ends, and \<^verbatim>\<open>\s\<close> of a pattern matches them.
\<close>

definition whitespace :: "codepoint list" where
  "whitespace =
     [9, 10, 11, 12, 13, 28, 29, 30, 31, 32, 133, 160, 5760,
      8192, 8193, 8194, 8195, 8196, 8197, 8198, 8199, 8200, 8201, 8202,
      8232, 8233, 8239, 8287, 12288]"

definition py_isspace :: "codepoint \<Rightarrow> bool" where
  "py_isspace c = (c \<in> set whitespace)"

text \<open>\<^verbatim>\<open>s.strip()\<close>\<close>

definition strip :: "pystr \<Rightarrow> pystr" where
  "strip s = rev (dropWhile py_isspace (rev (dropWhile py_isspace s)))"

text \<open>The two cases of an ASCII letter; every other code point is left alone.\<close>

definition ascii_lower :: "codepoint \<Rightarrow> codepoint" where
  "ascii_lower c = (if 65 \<le> c \<and> c \<le> 90 then c + 32 else c)"

definition ascii_upper :: "codepoint \<Rightarrow> codepoint" where
  "ascii_upper c = (if 97 \<le> c \<and> c \<le> 122 then c - 32 else c)"

text \<open>
  The tables of the Unicode database that the run reads for code points above 127.
  They belong to the Python interpreter, not to the repository, and are parameters of
  the model: the lower-case form of a text (\<^verbatim>\<open>str.lower()\<close>, which is not letter by
  letter outside ASCII), the alphanumeric code points (\<^verbatim>\<open>\w\<close> and \<^verbatim>\<open>\b\<close> of a pattern) and
  the decimal digits (\<^verbatim>\<open>\d\<close>).
\<close>

record unicode =
  unicode_lower :: "pystr \<Rightarrow> pystr"
  unicode_alnum :: "codepoint \<Rightarrow> bool"
  unicode_decimal :: "codepoint \<Rightarrow> bool"

text \<open>\<^verbatim>\<open>s.lower()\<close>: on ASCII text the capitals A-Z are replaced by a-z.\<close>

definition lower :: "unicode \<Rightarrow> pystr \<Rightarrow> pystr" where
  "lower uc s = (if list_all (\<lambda>c. c < 128) s then map ascii_lower s else unicode_lower uc s)"

text \<open>\<^verbatim>\<open>s.startswith(p)\<close>\<close>

fun startswith :: "pystr \<Rightarrow> pystr \<Rightarrow> bool" where
  "startswith s [] = True"
| "startswith [] (p # ps) = False"
| "startswith (c # cs) (p # ps) = (c = p \<and> startswith cs ps)"

text \<open>\<^verbatim>\<open>sub in s\<close> on strings: \<open>sub\<close> occurs in \<open>s\<close> as a contiguous run.\<close>

fun str_in :: "pystr \<Rightarrow> pystr \<Rightarrow> bool" where
  "str_in sub [] = (sub = [])"
| "str_in sub (c # cs) = (startswith (c # cs) sub \<or> str_in sub cs)"

text \<open>\<^verbatim>\<open>s.split(sep)[0]\<close> for a non-empty separator: the text before its first occurrence.\<close>

fun split_first :: "pystr \<Rightarrow> pystr \<Rightarrow> pystr" where
  "split_first sep [] = []"
| "split_first sep (c # cs) = (if startswith (c # cs) sep then [] else c # split_first sep cs)"

text \<open>
  \<^verbatim>\<open>s.replace(old, "")\<close> for a non-empty \<open>old\<close>: the occurrences are removed from left
  to right, without overlap.
\<close>

function str_remove :: "pystr \<Rightarrow> pystr \<Rightarrow> pystr" where
  "str_remove old s =
     (if s = [] then []
      else if old \<noteq> [] \<and> startswith s old then str_remove old (drop (length old) s)
      else hd s # str_remove old (tl s))"
  by pat_completeness auto
termination
  by (relation "measure (\<lambda>(old, s). length s)") auto

declare str_remove.simps [simp del]

text \<open>\<^verbatim>\<open>" ".join(xs)\<close>\<close>

fun join_space :: "pystr list \<Rightarrow> pystr" where
  "join_space [] = []"
| "join_space [x] = x"
| "join_space (x # y # ys) = x @ [32] @ join_space (y # ys)"

text \<open>Python's truth value of an optional string: \<^verbatim>\<open>None\<close> and \<^verbatim>\<open>""\<close> are false.\<close>

definition truthy :: "pystr option \<Rightarrow> bool" where
  "truthy v = (case v of None \<Rightarrow> False | Some s \<Rightarrow> s \<noteq> [])"

section \<open>Regular expressions\<close>

text \<open>
  The patterns of the script use character classes, bounded and unbounded greedy
  repetition of one class, optional parts, alternatives, groups, \<^verbatim>\<open>\b\<close> and \<^verbatim>\<open>$\<close>.
  The matcher is Python's backtracking one: \<open>rmatch r st\<close> lists the states in which \<open>r\<close>
  can end when started in \<open>st\<close>, in the order in which backtracking tries them, so the
  head of the list is the match Python reports. A state holds the groups closed so far,
  the code point before the position (for \<^verbatim>\<open>\b\<close>) and the text still to read.
\<close>

datatype cset = In "codepoint list" | NotIn "codepoint list" | Class "codepoint \<Rightarrow> bool"

fun in_cset :: "cset \<Rightarrow> codepoint \<Rightarrow> bool" where
  "in_cset (In cs) c = (c \<in> set cs)"
| "in_cset (NotIn cs) c = (c \<notin> set cs)"
| "in_cset (Class f) c = f c"

text \<open>\<open>WordB w\<close> is \<^verbatim>\<open>\b\<close>, where \<open>w\<close> tells the word characters.\<close>

datatype rx =
    Ch cset
  | Rep cset nat "nat option"
  | Seq rx rx
  | Alt rx rx
  | Opt rx
  | Grp rx
  | WordB "codepoint \<Rightarrow> bool"
  | Eol

type_synonym mstate = "pystr list \<times> codepoint option \<times> pystr"

definition letters :: pystr where
  "letters = str ''ABCDEFGHIJKLMNOPQRSTUVWXYZabcdefghijklmnopqrstuvwxyz''"

definition digits :: pystr where
  "digits = str ''0123456789''"

text \<open>
  \<^verbatim>\<open>\w\<close> matches a letter, a digit, the underscore and every alphanumeric code point of
  Unicode; \<^verbatim>\<open>\d\<close> matches a digit and every decimal digit of Unicode.
\<close>

definition word_char :: "unicode \<Rightarrow> codepoint \<Rightarrow> bool" where
  "word_char uc c = (if c < 128 then c \<in> set (letters @ digits @ str ''_'') else unicode_alnum uc c)"

definition digit_char :: "unicode \<Rightarrow> codepoint \<Rightarrow> bool" where
  "digit_char uc c = (if c < 128 then c \<in> set digits else unicode_decimal uc c)"

text \<open>Whether the position before or after a code point is inside a word: not at an end of the text.\<close>

definition is_word :: "(codepoint \<Rightarrow> bool) \<Rightarrow> codepoint option \<Rightarrow> bool" where
  "is_word w c = (case c of None \<Rightarrow> False | Some x \<Rightarrow> w x)"

definition next_char :: "pystr \<Rightarrow> codepoint option" where
  "next_char s = (case s of [] \<Rightarrow> None | c # _ \<Rightarrow> Some c)"

text \<open>
  Greedy repetition of a class, between \<open>lo\<close> and \<open>hi\<close> times (\<open>None\<close>: no upper bound):
  the longest run first, then each shorter one down to \<open>lo\<close> characters.
\<close>

fun rep_states :: "cset \<Rightarrow> nat \<Rightarrow> nat option \<Rightarrow> codepoint option \<Rightarrow> pystr \<Rightarrow> (codepoint option \<times> pystr) list" where
  "rep_states cs lo hi p [] = (if lo = 0 then [(p, [])] else [])"
| "rep_states cs lo hi p (c # r) =
     (if in_cset cs c \<and> hi \<noteq> Some 0
      then rep_states cs (lo - 1) (map_option (\<lambda>h. h - 1) hi) (Some c) r
      else [])
     @ (if lo = 0 then [(p, c # r)] else [])"

fun rmatch :: "rx \<Rightarrow> mstate \<Rightarrow> mstate list" where
  "rmatch (Ch cs) (g, p, s) =
     (case s of [] \<Rightarrow> [] | c # r \<Rightarrow> if in_cset cs c then [(g, Some c, r)] else [])"
| "rmatch (Rep cs lo hi) (g, p, s) = map (\<lambda>(p', s'). (g, p', s')) (rep_states cs lo hi p s)"
| "rmatch (Seq a b) st = concat (map (rmatch b) (rmatch a st))"
| "rmatch (Alt a b) st = rmatch a st @ rmatch b st"
| "rmatch (Opt a) st = rmatch a st @ [st]"
| "rmatch (Grp a) (g, p, s) =
     map (\<lambda>(g', p', s'). (g' @ [take (length s - length s') s], p', s')) (rmatch a (g, p, s))"
| "rmatch (WordB w) (g, p, s) = (if is_word w p \<noteq> is_word w (next_char s) then [(g, p, s)] else [])"
| "rmatch Eol (g, p, s) = (if s = [] \<or> s = [10] then [(g, p, s)] else [])"

fun seqs :: "rx list \<Rightarrow> rx" where
  "seqs [] = Rep (In []) 0 (Some 0)"
| "seqs [r] = r"
| "seqs (r # rs) = Seq r (seqs rs)"

text \<open>
  A letter of a pattern under \<^verbatim>\<open>re.IGNORECASE\<close> matches its two cases; \<^verbatim>\<open>i\<close> also matches
  U+0130 and U+0131, and \<^verbatim>\<open>s\<close> also U+017F. (Of the letters with further matches these
  two are the ones in the patterns of the script.)
\<close>

definition ci_class :: "codepoint \<Rightarrow> codepoint list" where
  "ci_class c =
     [ascii_lower c, ascii_upper c]
     @ (if ascii_lower c = 105 then [304, 305] else [])
     @ (if ascii_lower c = 115 then [383] else [])"

text \<open>A literal ASCII text under \<^verbatim>\<open>re.IGNORECASE\<close>.\<close>

definition lit_ci :: "string \<Rightarrow> rx" where
  "lit_ci s = seqs (map (\<lambda>c. Ch (In (ci_class c))) (str s))"

text \<open>
  \<^verbatim>\<open>re.findall\<close>: the matches from left to right, each with its groups; the scan goes on
  after a match, and one character further where nothing matches. No pattern of the
  script matches the empty text; the branch for an empty match only makes the function
  total.
\<close>

function re_scan :: "rx \<Rightarrow> codepoint option \<Rightarrow> pystr \<Rightarrow> (pystr \<times> pystr list) list" where
  "re_scan r p s =
     (case rmatch r ([], p, s) of
        [] \<Rightarrow> (case s of [] \<Rightarrow> [] | c # cs \<Rightarrow> re_scan r (Some c) cs)
      | (g, p', s') # _ \<Rightarrow>
          if length s' < length s
          then (take (length s - length s') s, g) # re_scan r p' s'
          else (case s of [] \<Rightarrow> [([], g)] | c # cs \<Rightarrow> ([], g) # re_scan r (Some c) cs))"
  by pat_completeness auto
termination
  by (relation "measure (\<lambda>(r, p, s). length s)") auto

declare re_scan.simps [simp del]

definition re_findall :: "rx \<Rightarrow> pystr \<Rightarrow> (pystr \<times> pystr list) list" where
  "re_findall r s = re_scan r None s"

text \<open>\<^verbatim>\<open>re.search(r, s)\<close> as a truth value.\<close>

definition re_search :: "rx \<Rightarrow> pystr \<Rightarrow> bool" where
  "re_search r s = (re_findall r s \<noteq> [])"

text \<open>\<^verbatim>\<open>re.sub(r, '', s)\<close>: every match is removed.\<close>

function re_sub_empty :: "rx \<Rightarrow> codepoint option \<Rightarrow> pystr \<Rightarrow> pystr" where
  "re_sub_empty r p s =
     (case rmatch r ([], p, s) of
        [] \<Rightarrow> (case s of [] \<Rightarrow> [] | c # cs \<Rightarrow> c # re_sub_empty r (Some c) cs)
      | (g, p', s') # _ \<Rightarrow>
          if length s' < length s
          then re_sub_empty r p' s'
          else (case s of [] \<Rightarrow> [] | c # cs \<Rightarrow> c # re_sub_empty r (Some c) cs))"
  by pat_completeness auto
termination
  by (relation "measure (\<lambda>(r, p, s). length s)") auto

declare re_sub_empty.simps [simp del]

section \<open>The parsed document\<close>

text \<open>
  \<^verbatim>\<open>BeautifulSoup(text, "html.parser")\<close> is an external collaborator: a fetched page
  is given by its parse tree. A \<open>Tag\<close> has a name, its attribute dictionary and its
  children; a \<open>NavigableString\<close> is a piece of text that \<^verbatim>\<open>get_text\<close> returns. The
  document itself is a tag named \<^verbatim>\<open>[document]\<close>. The names of tags and attributes are only
  ever compared with ASCII literals of the source and are kept as \<open>string\<close>; attribute
  values and text are Python strings.
\<close>

datatype node =
    Tag string "(string \<times> pystr) list" "node list"
  | NavigableString pystr

fun tag_name :: "node \<Rightarrow> string option" where
  "tag_name (Tag n a cs) = Some n"
| "tag_name (NavigableString s) = None"

text \<open>\<^verbatim>\<open>tag.get(key)\<close>\<close>

fun get_attr :: "node \<Rightarrow> string \<Rightarrow> pystr option" where
  "get_attr (Tag n a cs) k = map_of a k"
| "get_attr (NavigableString s) k = None"

text \<open>The strings below a node, in document order.\<close>

fun strings :: "node \<Rightarrow> pystr list" where
  "strings (NavigableString s) = [s]"
| "strings (Tag n a cs) = concat (map strings cs)"

text \<open>\<^verbatim>\<open>tag.get_text()\<close> and \<^verbatim>\<open>tag.get_text(strip=True)\<close>\<close>

definition get_text :: "node \<Rightarrow> pystr" where
  "get_text n = concat (strings n)"

definition get_text_strip :: "node \<Rightarrow> pystr" where
  "get_text_strip n = concat (filter (\<lambda>s. s \<noteq> []) (map strip (strings n)))"

text \<open>\<^verbatim>\<open>tag.descendants\<close>: every node below the tag, in document order.\<close>

fun descendants :: "node \<Rightarrow> node list" where
  "descendants (NavigableString s) = []"
| "descendants (Tag n a cs) = concat (map (\<lambda>c. c # descendants c) cs)"

definition is_tag :: "string list \<Rightarrow> node \<Rightarrow> bool" where
  "is_tag names n = (case tag_name n of None \<Rightarrow> False | Some t \<Rightarrow> t \<in> set names)"

text \<open>\<^verbatim>\<open>tag.find_all(names)\<close>, \<^verbatim>\<open>tag.find(names)\<close> and the filter \<^verbatim>\<open>attr=True\<close>.\<close>

definition find_all :: "string list \<Rightarrow> node \<Rightarrow> node list" where
  "find_all names n = filter (is_tag names) (descendants n)"

definition find_first :: "string list \<Rightarrow> node \<Rightarrow> node option" where
  "find_first names n = List.find (is_tag names) (descendants n)"

definition has_attr :: "string \<Rightarrow> node \<Rightarrow> bool" where
  "has_attr k n = (get_attr n k \<noteq> None)"

text \<open>
  Every node below a tag together with its ancestors, the nearest first; the list
  follows the document order of \<open>descendants\<close>.
\<close>

fun located :: "node list \<Rightarrow> node \<Rightarrow> (node \<times> node list) list" where
  "located ancs (NavigableString s) = []"
| "located ancs (Tag n a cs) =
     concat (map (\<lambda>c. (c, Tag n a cs # ancs) # located (Tag n a cs # ancs) c) cs)"

text \<open>\<^verbatim>\<open>heading.find_parent(names)\<close>, from the ancestors of the heading.\<close>

definition find_parent :: "string list \<Rightarrow> node list \<Rightarrow> node option" where
  "find_parent names ancs = List.find (is_tag names) ancs"

text \<open>
  \<^verbatim>\<open>for heading in soup.find_all(["h1", ..., "h5"])\<close> with
  \<^verbatim>\<open>heading.find_parent(['div', 'section', 'article', 'main'])\<close>: the headings in
  document order, each with its container.
\<close>

definition headings :: "node \<Rightarrow> (node \<times> node option) list" where
  "headings soup =
     map (\<lambda>(h, ancs). (h, find_parent [''div'', ''section'', ''article'', ''main''] ancs))
       (filter (\<lambda>(h, ancs). is_tag [''h1'', ''h2'', ''h3'', ''h4'', ''h5''] h) (located [] soup))"

text \<open>\<^verbatim>\<open>any(keyword in text for keyword in keywords)\<close>\<close>

definition any_in :: "pystr list \<Rightarrow> pystr \<Rightarrow> bool" where
  "any_in keywords s = list_ex (\<lambda>k. str_in k s) keywords"

text \<open>
  \<^verbatim>\<open>for x in soup(names): x.decompose()\<close>: the tags of these names are removed with
  everything below them.
\<close>

fun decompose_all :: "string list \<Rightarrow> node \<Rightarrow> node" where
  "decompose_all names (NavigableString s) = NavigableString s"
| "decompose_all names (Tag n a cs) =
     Tag n a (concat (map (\<lambda>c. if is_tag names c then [] else [decompose_all names c]) cs))"

section \<open>The network and the URL library\<close>

text \<open>
  \<^verbatim>\<open>requests.get\<close> either raises or returns a response. The exceptions of
  \<^verbatim>\<open>requests.exceptions.RequestException\<close> are the first four; \<open>ValueError\<close> is what
  \<^verbatim>\<open>urljoin\<close> and \<^verbatim>\<open>urlparse\<close> raise on a malformed URL, and \<open>OtherException\<close> is any other
  exception of the class \<^verbatim>\<open>Exception\<close>.
\<close>

datatype py_exception =
    ConnectionError
  | Timeout
  | HTTPError nat
  | OtherRequestException
  | ValueError
  | OtherException

definition is_request_exception :: "py_exception \<Rightarrow> bool" where
  "is_request_exception e = (e \<noteq> ValueError \<and> e \<noteq> OtherException)"

record response =
  status_code :: nat
  final_url :: pystr
  soup :: node

datatype get_result = Raises py_exception | Returns response

text \<open>\<^verbatim>\<open>response.raise_for_status()\<close> raises \<^verbatim>\<open>HTTPError\<close> for a status from 400 to 599.\<close>

definition raise_for_status :: "response \<Rightarrow> py_exception option" where
  "raise_for_status r =
     (if 400 \<le> status_code r \<and> status_code r < 600 then Some (HTTPError (status_code r)) else None)"

text \<open>What the run reads of \<^verbatim>\<open>urlparse(u)\<close>.\<close>

record url_parts =
  netloc :: pystr
  path :: pystr

text \<open>
  The collaborators of a run: \<^verbatim>\<open>requests.get(url, timeout=t)\<close>, \<^verbatim>\<open>urljoin(base, href)\<close> and
  \<^verbatim>\<open>urlparse(u)\<close>, each of which returns or raises (\<open>Inl\<close>), and the Unicode tables.
\<close>

record env =
  requests_get :: "pystr \<Rightarrow> nat \<Rightarrow> get_result"
  urljoin :: "pystr \<Rightarrow> pystr \<Rightarrow> py_exception + pystr"
  urlparse :: "pystr \<Rightarrow> py_exception + url_parts"
  tables :: unicode

text \<open>
  A loop whose body may raise. In \<open>fold_raise\<close> the exception leaves the loop and goes on
  to the caller; in \<open>fold_caught\<close> it is caught around the loop, which ends with what it
  has built so far.
\<close>

fun fold_raise :: "('s \<Rightarrow> 'x \<Rightarrow> py_exception + 's) \<Rightarrow> 's \<Rightarrow> 'x list \<Rightarrow> py_exception + 's" where
  "fold_raise f s [] = Inr s"
| "fold_raise f s (x # xs) = (case f s x of Inl e \<Rightarrow> Inl e | Inr s' \<Rightarrow> fold_raise f s' xs)"

fun fold_caught :: "('s \<Rightarrow> 'x \<Rightarrow> py_exception + 's) \<Rightarrow> 's \<Rightarrow> 'x list \<Rightarrow> 's" where
  "fold_caught f s [] = s"
| "fold_caught f s (x # xs) = (case f s x of Inl e \<Rightarrow> s | Inr s' \<Rightarrow> fold_caught f s' xs)"

section \<open>The profile\<close>

text \<open>
  The nested dictionaries of lines 65-90 as records, with the keys of the source as
  field names. Where two dictionaries share a key the second field is renamed:
  \<open>step_description\<close> is \<^verbatim>\<open>description\<close> of a process step, \<open>article_url\<close> is \<^verbatim>\<open>url\<close> of
  an article and \<open>careers_page_url\<close> is \<^verbatim>\<open>page_url\<close> of \<^verbatim>\<open>careers\<close>; the keys \<^verbatim>\<open>url\<close>,
  \<^verbatim>\<open>text\<close> and \<^verbatim>\<open>href\<close> of a link are \<open>link_url\<close>, \<open>link_text\<close> and \<open>link_href\<close>.
\<close>

record about_us_rec =
  description :: "pystr option"
  page_url :: "pystr option"

record process_step =
  step :: nat
  step_description :: pystr

record article =
  title :: pystr
  article_url :: "pystr option"

record contact_info_rec =
  contact_page :: "pystr option"
  email :: "pystr option"
  phone :: "pystr option"
  address :: "pystr option"

record careers_rec =
  careers_page_url :: "pystr option"

record policies_rec =
  privacy_policy :: "pystr option"
  returns_policy :: "pystr option"
  terms_of_service :: "pystr option"

record profile =
  company_name :: "pystr option"
  website :: pystr
  about_us :: about_us_rec
  services :: "pystr list"
  clients :: "pystr list"
  process :: "process_step list"
  articles :: "article list"
  contact_info :: contact_info_rec
  careers :: careers_rec
  policies :: policies_rec

text \<open>The profile as \<^verbatim>\<open>scrape_company_profile\<close> builds it first (lines 65-90).\<close>

definition empty_profile :: "pystr \<Rightarrow> profile" where
  "empty_profile url =
     \<lparr>company_name = None, website = url,
      about_us = \<lparr>description = None, page_url = None\<rparr>,
      services = [], clients = [], process = [], articles = [],
      contact_info = \<lparr>contact_page = None, email = None, phone = None, address = None\<rparr>,
      careers = \<lparr>careers_page_url = None\<rparr>,
      policies = \<lparr>privacy_policy = None, returns_policy = None, terms_of_service = None\<rparr>\<rparr>"

record link =
  link_url :: pystr
  link_text :: pystr
  link_href :: pystr

section \<open>Company name (lines 127-141)\<close>

text \<open>
  The third separator of line 129 is the three-character text the source file holds
  there: U+00E2, U+20AC, U+201C.
\<close>

definition title_separator :: pystr where
  "title_separator = [226, 8364, 8220]"

definition from_title :: "node \<Rightarrow> pystr option \<Rightarrow> pystr option" where
  "from_title doc cur =
     (case find_first [''title''] doc of
        None \<Rightarrow> cur
      | Some t \<Rightarrow>
          Some (strip (split_first title_separator
                  (split_first (str ''-'') (split_first (str ''|'') (strip (get_text t)))))))"

text \<open>
  \<^verbatim>\<open>og_site_name and og_site_name.get("content")\<close>: the \<^verbatim>\<open>content\<close> of the first
  \<^verbatim>\<open>meta\<close> tag whose \<^verbatim>\<open>property\<close> is \<^verbatim>\<open>og:site_name\<close>.
\<close>

definition og_site_name_content :: "node \<Rightarrow> pystr option" where
  "og_site_name_content doc =
     (case List.find (\<lambda>m. get_attr m ''property'' = Some (str ''og:site_name'')) (find_all [''meta''] doc) of
        None \<Rightarrow> None
      | Some m \<Rightarrow> get_attr m ''content'')"

definition from_og_site_name :: "node \<Rightarrow> pystr option \<Rightarrow> pystr option" where
  "from_og_site_name doc cur =
     (if truthy (og_site_name_content doc) then map_option strip (og_site_name_content doc) else cur)"

text \<open>\<^verbatim>\<open>alt=re.compile(r"logo", re.IGNORECASE)\<close>: the tag has an \<^verbatim>\<open>alt\<close> the pattern is found in.\<close>

definition alt_matches_logo :: "node \<Rightarrow> bool" where
  "alt_matches_logo i = (case get_attr i ''alt'' of None \<Rightarrow> False | Some a \<Rightarrow> re_search (lit_ci ''logo'') a)"

text \<open>\<^verbatim>\<open>logo and logo.get("alt")\<close>: the \<^verbatim>\<open>alt\<close> of the first such image.\<close>

definition logo_alt :: "node \<Rightarrow> pystr option" where
  "logo_alt doc =
     (case List.find alt_matches_logo (find_all [''img''] doc) of
        None \<Rightarrow> None
      | Some i \<Rightarrow> get_attr i ''alt'')"

definition from_logo :: "node \<Rightarrow> pystr option \<Rightarrow> pystr option" where
  "from_logo doc cur =
     (if truthy (logo_alt doc)
      then map_option (\<lambda>a. strip (str_remove (str ''Logo'') (str_remove (str ''logo'') a))) (logo_alt doc)
      else cur)"

definition extract_company_name :: "node \<Rightarrow> profile \<Rightarrow> profile" where
  "extract_company_name doc p =
     p\<lparr>company_name := from_logo doc (from_og_site_name doc (from_title doc (company_name p)))\<rparr>"

section \<open>The link catalog (lines 145-158)\<close>

text \<open>
  One round of the loop, for an \<^verbatim>\<open>a\<close> tag with a \<^verbatim>\<open>href\<close>: the entries it appends. Lines
  150 and 153 stand outside any \<^verbatim>\<open>try\<close>: when \<^verbatim>\<open>urljoin\<close> or \<^verbatim>\<open>urlparse\<close> raises, the run
  raises. The calls are made in the order of the source, and \<^verbatim>\<open>urlparse(href)\<close> only when
  the two network locations differ.
\<close>

definition link_of :: "env \<Rightarrow> response \<Rightarrow> node \<Rightarrow> py_exception + link list" where
  "link_of env r a =
     (case get_attr a ''href'' of
        None \<Rightarrow> Inr []
      | Some href \<Rightarrow>
          (let text = get_text_strip a
           in case urljoin env (final_url r) href of
                Inl e \<Rightarrow> Inl e
              | Inr full_url \<Rightarrow>
                  (let entry = \<lparr>link_url = full_url, link_text = lower (tables env) text,
                                 link_href = lower (tables env) href\<rparr>
                   in case urlparse env full_url of
                        Inl e \<Rightarrow> Inl e
                      | Inr parsed_full \<Rightarrow>
                          (case urlparse env (final_url r) of
                             Inl e \<Rightarrow> Inl e
                           | Inr parsed_page \<Rightarrow>
                               if netloc parsed_full = netloc parsed_page then Inr [entry]
                               else (case urlparse env href of
                                       Inl e \<Rightarrow> Inl e
                                     | Inr parsed_href \<Rightarrow>
                                         if netloc parsed_href = [] then Inr [entry] else Inr [])))))"

definition collect_links :: "env \<Rightarrow> response \<Rightarrow> py_exception + link list" where
  "collect_links env r =
     fold_raise (\<lambda>all_links a. case link_of env r a of
                                   Inl e \<Rightarrow> Inl e
                                 | Inr new \<Rightarrow> Inr (all_links @ new))
       [] (find_all [''a''] (soup r))"

section \<open>Key pages (lines 166-217)\<close>

text \<open>
  One round of the About loop (lines 167-169): \<open>cur\<close> is
  \<^verbatim>\<open>profile["about_us"]["page_url"]\<close>. \<^verbatim>\<open>urlparse\<close> is called only when a URL is chosen
  already.
\<close>

definition about_step :: "env \<Rightarrow> pystr option \<Rightarrow> link \<Rightarrow> py_exception + pystr option" where
  "about_step env cur l =
     (if str_in (str ''about'') (link_href l) \<or> str_in (str ''about'') (link_text l)
      then (case cur of
              None \<Rightarrow> Inr (Some (link_url l))
            | Some u \<Rightarrow>
                if u = [] then Inr (Some (link_url l))
                else (case urlparse env u of
                        Inl e \<Rightarrow> Inl e
                      | Inr parsed \<Rightarrow>
                          if length (link_href l) < length (path parsed)
                          then Inr (Some (link_url l))
                          else Inr cur))
      else Inr cur)"

definition find_about :: "env \<Rightarrow> link list \<Rightarrow> pystr option \<Rightarrow> py_exception + pystr option" where
  "find_about env all_links cur = fold_raise (about_step env) cur all_links"

text \<open>\<^verbatim>\<open>for link in all_links: if cond(link): field = link["url"]; break\<close>\<close>

definition first_link :: "(link \<Rightarrow> bool) \<Rightarrow> link list \<Rightarrow> pystr option \<Rightarrow> pystr option" where
  "first_link cond all_links cur =
     (case List.find cond all_links of None \<Rightarrow> cur | Some l \<Rightarrow> Some (link_url l))"

definition is_contact_link :: "link \<Rightarrow> bool" where
  "is_contact_link l = (str_in (str ''contact'') (link_href l) \<or> str_in (str ''contact'') (link_text l))"

definition is_careers_link :: "link \<Rightarrow> bool" where
  "is_careers_link l =
     list_ex (\<lambda>word. str_in word (link_href l) \<or> str_in word (link_text l))
       (map str [''career'', ''job'', ''hiring'', ''join''])"

definition is_privacy_link :: "link \<Rightarrow> bool" where
  "is_privacy_link l = (str_in (str ''privacy'') (link_href l) \<or> str_in (str ''privacy'') (link_text l))"

definition is_returns_link :: "link \<Rightarrow> bool" where
  "is_returns_link l =
     (str_in (str ''return'') (link_href l) \<or> str_in (str ''refund'') (link_href l)
      \<or> str_in (str ''return'') (link_text l))"

definition is_terms_link :: "link \<Rightarrow> bool" where
  "is_terms_link l =
     list_ex (\<lambda>term. str_in term (link_href l) \<or> str_in term (link_text l))
       (map str [''term'', ''condition'', ''tos''])"

text \<open>Lines 166-169 on the profile: the loop may raise, and then nothing is assigned after it.\<close>

definition find_about_page :: "env \<Rightarrow> link list \<Rightarrow> profile \<Rightarrow> py_exception + profile" where
  "find_about_page env all_links p =
     (case find_about env all_links (page_url (about_us p)) of
        Inl e \<Rightarrow> Inl e
      | Inr about_url \<Rightarrow> Inr (p\<lparr>about_us := (about_us p)\<lparr>page_url := about_url\<rparr>\<rparr>))"

text \<open>Lines 175-217: the contact, careers, privacy, returns and terms pages.\<close>

definition find_key_pages :: "link list \<Rightarrow> profile \<Rightarrow> profile" where
  "find_key_pages all_links p =
     (let p = p\<lparr>contact_info := (contact_info p)
                 \<lparr>contact_page := first_link is_contact_link all_links (contact_page (contact_info p))\<rparr>\<rparr>;
          p = p\<lparr>careers := (careers p)
                 \<lparr>careers_page_url := first_link is_careers_link all_links (careers_page_url (careers p))\<rparr>\<rparr>;
          p = p\<lparr>policies := (policies p)
                 \<lparr>privacy_policy := first_link is_privacy_link all_links (privacy_policy (policies p))\<rparr>\<rparr>;
          p = p\<lparr>policies := (policies p)
                 \<lparr>returns_policy := first_link is_returns_link all_links (returns_policy (policies p))\<rparr>\<rparr>;
          p = p\<lparr>policies := (policies p)
                 \<lparr>terms_of_service := first_link is_terms_link all_links (terms_of_service (policies p))\<rparr>\<rparr>
      in p)"

section \<open>Services (lines 223-263)\<close>

definition service_keywords :: "pystr list" where
  "service_keywords =
     map str [''service'', ''solution'', ''offer'', ''product'', ''expertise'', ''specialization'']"

text \<open>Lines 235-241: the items of the first five lists of the container.\<close>

definition services_from_lists :: "node \<Rightarrow> pystr list \<Rightarrow> pystr list" where
  "services_from_lists parent acc =
     foldl (\<lambda>acc li.
              let service = get_text_strip li
              in if service \<noteq> [] \<and> 3 < length service \<and> length service < 200
                 then (if service \<notin> set acc then acc @ [service] else acc)
                 else acc)
       acc
       (concat (map (find_all [''li'']) (take 5 (find_all [''ul'', ''ol''] parent))))"

text \<open>Lines 244-254: the first twenty \<^verbatim>\<open>div\<close>s with a class, as service cards.\<close>

definition services_from_cards :: "node \<Rightarrow> pystr list \<Rightarrow> pystr list" where
  "services_from_cards parent acc =
     foldl (\<lambda>acc d.
              let text = get_text_strip d
              in if 10 < length text \<and> length text < 300
                 then (case find_first [''h3'', ''h4'', ''h5''] d of
                         None \<Rightarrow> acc
                       | Some inner_heading \<Rightarrow>
                           (let service = get_text_strip inner_heading
                            in if service \<notin> set acc \<and> 3 < length service
                               then acc @ [service]
                               else acc))
                 else acc)
       acc
       (take 20 (filter (has_attr ''class'') (find_all [''div''] parent)))"

definition services_method1 :: "unicode \<Rightarrow> node \<Rightarrow> pystr list \<Rightarrow> pystr list" where
  "services_method1 uc doc acc =
     foldl (\<lambda>acc (heading, parent).
              if any_in service_keywords (lower uc (get_text_strip heading))
              then (case parent of
                      None \<Rightarrow> acc
                    | Some par \<Rightarrow> services_from_cards par (services_from_lists par acc))
              else acc)
       acc (headings doc)"

text \<open>\<^verbatim>\<open>r'We (offer|provide|deliver|specialize in) ([^.!?]{10,100})'\<close> with \<^verbatim>\<open>re.IGNORECASE\<close>\<close>

definition service_pattern :: rx where
  "service_pattern =
     seqs [lit_ci ''We '',
           Grp (Alt (lit_ci ''offer'') (Alt (lit_ci ''provide'')
                  (Alt (lit_ci ''deliver'') (lit_ci ''specialize in'')))),
           Ch (In (str '' '')),
           Grp (Rep (NotIn (str ''.!?'')) 10 (Some 100))]"

text \<open>\<^verbatim>\<open>match[i]\<close> of a tuple of groups.\<close>

definition group :: "pystr list \<Rightarrow> nat \<Rightarrow> pystr" where
  "group g i = (if i < length g then g ! i else [])"

definition services_method2 :: "node \<Rightarrow> pystr list \<Rightarrow> pystr list" where
  "services_method2 doc acc =
     foldl (\<lambda>acc (m, g).
              let service = strip (group g 1)
              in if service \<notin> set acc \<and> 10 < length service then acc @ [service] else acc)
       acc (re_findall service_pattern (get_text doc))"

definition scrape_services :: "env \<Rightarrow> node \<Rightarrow> profile \<Rightarrow> profile" where
  "scrape_services env doc p =
     p\<lparr>services := services_method2 doc (services_method1 (tables env) doc (services p))\<rparr>"

section \<open>Clients (lines 271-300)\<close>

definition client_keywords :: "pystr list" where
  "client_keywords =
     map str [''client'', ''customer'', ''partner'', ''trust'', ''work with'', ''portfolio'']"

text \<open>\<^verbatim>\<open>r'\s+(logo|icon|image)$'\<close> with \<^verbatim>\<open>re.IGNORECASE\<close>\<close>

definition client_suffix :: rx where
  "client_suffix =
     seqs [Rep (In whitespace) 1 None,
           Grp (Alt (lit_ci ''logo'') (Alt (lit_ci ''icon'') (lit_ci ''image''))),
           Eol]"

text \<open>\<^verbatim>\<open>img.get(key, "").strip()\<close>\<close>

definition attr_or_empty :: "node \<Rightarrow> string \<Rightarrow> pystr" where
  "attr_or_empty n k = strip (case get_attr n k of None \<Rightarrow> [] | Some v \<Rightarrow> v)"

definition clients_from_images :: "node \<Rightarrow> pystr list \<Rightarrow> pystr list" where
  "clients_from_images parent acc =
     foldl (\<lambda>acc img.
              let alt = attr_or_empty img ''alt'';
                  ttl = attr_or_empty img ''title'';
                  client_name = (if alt \<noteq> [] then alt else ttl)
              in if client_name \<noteq> [] \<and> 1 < length client_name \<and> length client_name < 100
                 then (let client_name = re_sub_empty client_suffix None client_name
                       in if client_name \<notin> set acc then acc @ [client_name] else acc)
                 else acc)
       acc (find_all [''img''] parent)"

definition clients_from_text :: "node \<Rightarrow> pystr list \<Rightarrow> pystr list" where
  "clients_from_text parent acc =
     foldl (\<lambda>acc elem.
              let text = get_text_strip elem
              in if 2 < length text \<and> length text < 50 \<and> text \<notin> set acc
                 then acc @ [text]
                 else acc)
       acc (find_all [''li'', ''span'', ''p'', ''div''] parent)"

definition clients_loop :: "unicode \<Rightarrow> node \<Rightarrow> pystr list \<Rightarrow> pystr list" where
  "clients_loop uc doc acc =
     foldl (\<lambda>acc (heading, parent).
              if any_in client_keywords (lower uc (get_text_strip heading))
              then (case parent of
                      None \<Rightarrow> acc
                    | Some par \<Rightarrow> clients_from_text par (clients_from_images par acc))
              else acc)
       acc (headings doc)"

definition scrape_clients :: "env \<Rightarrow> node \<Rightarrow> profile \<Rightarrow> profile" where
  "scrape_clients env doc p = p\<lparr>clients := clients_loop (tables env) doc (clients p)\<rparr>"

section \<open>Process (lines 307-339)\<close>

definition process_keywords :: "pystr list" where
  "process_keywords =
     map str [''process'', ''methodology'', ''approach'', ''how we'', ''workflow'', ''step'']"

text \<open>
  Lines 318-326: \<^verbatim>\<open>enumerate(ol.find_all("li"), 1)\<close> numbers the items of each ordered
  list from 1.
\<close>

definition process_from_lists :: "node \<Rightarrow> process_step list \<Rightarrow> process_step list" where
  "process_from_lists parent acc =
     foldl (\<lambda>acc (i, li).
              let step_text = get_text_strip li
              in if step_text \<noteq> [] \<and> 5 < length step_text
                 then acc @ [\<lparr>step = i, step_description = step_text\<rparr>]
                 else acc)
       acc
       (concat (map (\<lambda>ol. List.enumerate 1 (find_all [''li''] ol)) (find_all [''ol''] parent)))"

text \<open>\<^verbatim>\<open>r'\b\d+\b'\<close>\<close>

definition digit_token :: "unicode \<Rightarrow> rx" where
  "digit_token uc = seqs [WordB (word_char uc), Rep (Class (digit_char uc)) 1 None, WordB (word_char uc)]"

text \<open>
  Lines 329-339: the first ten \<^verbatim>\<open>div\<close> or \<^verbatim>\<open>article\<close> tags with a class, numbered from
  \<^verbatim>\<open>len(profile["process"]) + 1\<close> as it is when the loop starts.
\<close>

definition process_from_divs :: "unicode \<Rightarrow> node \<Rightarrow> process_step list \<Rightarrow> process_step list" where
  "process_from_divs uc parent acc =
     foldl (\<lambda>acc (i, d).
              let text = get_text_strip d
              in if 10 < length text \<and> length text < 500
                 then (if re_search (digit_token uc) (take 50 text)
                          \<or> find_first [''h3'', ''h4'', ''h5''] d \<noteq> None
                       then acc @ [\<lparr>step = i, step_description = take 300 text\<rparr>]
                       else acc)
                 else acc)
       acc
       (List.enumerate (length acc + 1)
          (take 10 (filter (has_attr ''class'') (find_all [''div'', ''article''] parent))))"

text \<open>Lines 310-339: the body of the loop, for one heading and its container.\<close>

definition process_section :: "unicode \<Rightarrow> node \<times> node option \<Rightarrow> process_step list \<Rightarrow> process_step list" where
  "process_section uc hp acc =
     (case hp of
        (heading, parent) \<Rightarrow>
          if any_in process_keywords (lower uc (get_text_strip heading))
          then (case parent of
                  None \<Rightarrow> acc
                | Some par \<Rightarrow> process_from_divs uc par (process_from_lists par acc))
          else acc)"

definition process_loop :: "unicode \<Rightarrow> node \<Rightarrow> process_step list \<Rightarrow> process_step list" where
  "process_loop uc doc acc = foldl (\<lambda>acc hp. process_section uc hp acc) acc (headings doc)"

definition scrape_process :: "env \<Rightarrow> node \<Rightarrow> profile \<Rightarrow> profile" where
  "scrape_process env doc p = p\<lparr>process := process_loop (tables env) doc (process p)\<rparr>"

section \<open>Articles (lines 347-377)\<close>

definition blog_keywords :: "pystr list" where
  "blog_keywords = map str [''blog'', ''article'', ''news'', ''insight'', ''resource'', ''post'']"

definition blog_urls :: "link list \<Rightarrow> pystr list" where
  "blog_urls all_links =
     map link_url
       (filter (\<lambda>l. list_ex (\<lambda>keyword. str_in keyword (link_href l) \<or> str_in keyword (link_text l))
                       blog_keywords)
          all_links)"

text \<open>
  Lines 362-375: one round of the loop over the \<^verbatim>\<open>article\<close> and \<^verbatim>\<open>div\<close> tags of the blog
  page. \<^verbatim>\<open>urljoin\<close> of line 371 may raise, before anything is appended.
\<close>

definition article_step :: "env \<Rightarrow> pystr \<Rightarrow> article list \<Rightarrow> node \<Rightarrow> py_exception + article list" where
  "article_step env blog_url acc art =
     (case find_first [''h1'', ''h2'', ''h3'', ''h4'', ''a''] art of
        None \<Rightarrow> Inr acc
      | Some title_elem \<Rightarrow>
          (let ttl = get_text_strip title_elem;
               lnk = (if tag_name title_elem = Some ''a'' then get_attr title_elem ''href'' else None)
           in if ttl \<noteq> [] \<and> 5 < length ttl \<and> length ttl < 200
              then (case (case lnk of
                            None \<Rightarrow> Inr None
                          | Some l \<Rightarrow>
                              if l = [] then Inr None
                              else (case urljoin env blog_url l of
                                      Inl e \<Rightarrow> Inl e
                                    | Inr u \<Rightarrow> Inr (Some u))) of
                      Inl e \<Rightarrow> Inl e
                    | Inr url \<Rightarrow>
                        (let article_data = \<lparr>title = ttl, article_url = url\<rparr>
                         in if article_data \<notin> set acc then Inr (acc @ [article_data]) else Inr acc))
              else Inr acc))"

text \<open>
  Lines 361-377 on the parsed blog page: an exception inside the loop is caught by
  \<^verbatim>\<open>except Exception\<close> of line 376, and the articles appended before it stay.
\<close>

definition articles_from :: "env \<Rightarrow> pystr \<Rightarrow> node \<Rightarrow> article list \<Rightarrow> article list" where
  "articles_from env blog_url blog_soup acc =
     fold_caught (article_step env blog_url) acc
       (take 15 (filter (has_attr ''class'') (find_all [''article'', ''div''] blog_soup)))"

text \<open>
  Lines 353-377: the first blog URL is fetched with a timeout of 10 and no status check;
  \<^verbatim>\<open>except Exception\<close> catches whatever the fetch raises.
\<close>

definition scrape_articles :: "env \<Rightarrow> link list \<Rightarrow> profile \<Rightarrow> profile" where
  "scrape_articles env all_links p =
     (case blog_urls all_links of
        [] \<Rightarrow> p
      | blog_url # _ \<Rightarrow>
          (case requests_get env blog_url 10 of
             Raises e \<Rightarrow> p
           | Returns blog_response \<Rightarrow>
               p\<lparr>articles := articles_from env blog_url (soup blog_response) (articles p)\<rparr>))"

section \<open>Contact details (lines 384-401)\<close>

text \<open>\<^verbatim>\<open>r'\b[A-Za-z0-9._%+-]+@[A-Za-z0-9.-]+\.[A-Z|a-z]{2,}\b'\<close>\<close>

definition email_pattern :: "unicode \<Rightarrow> rx" where
  "email_pattern uc =
     seqs [WordB (word_char uc),
           Rep (In (letters @ digits @ str ''._%+-'')) 1 None,
           Ch (In (str ''@'')),
           Rep (In (letters @ digits @ str ''.-'')) 1 None,
           Ch (In (str ''.'')),
           Rep (In (letters @ str ''|'')) 2 None,
           WordB (word_char uc)]"

definition email_blocklist :: "pystr list" where
  "email_blocklist = map str [''example.com'', ''domain.com'', ''email.com'']"

text \<open>Lines 388-390: the matches that hold none of the three texts, in lower case.\<close>

definition find_emails :: "unicode \<Rightarrow> pystr \<Rightarrow> pystr list" where
  "find_emails uc body_text =
     filter (\<lambda>e. \<not> list_ex (\<lambda>x. str_in x (lower uc e)) email_blocklist)
       (map fst (re_findall (email_pattern uc) body_text))"

text \<open>\<^verbatim>\<open>r'(?:\+?1[-.\s]?)?\(?([0-9]{3})\)?[-.\s]?([0-9]{3})[-.\s]?([0-9]{4})'\<close>\<close>

definition phone_pattern :: rx where
  "phone_pattern =
     seqs [Opt (seqs [Opt (Ch (In (str ''+''))), Ch (In (str ''1'')), Opt (Ch (In (str ''-.'' @ whitespace)))]),
           Opt (Ch (In (str ''(''))),
           Grp (Rep (In digits) 3 (Some 3)),
           Opt (Ch (In (str '')''))),
           Opt (Ch (In (str ''-.'' @ whitespace))),
           Grp (Rep (In digits) 3 (Some 3)),
           Opt (Ch (In (str ''-.'' @ whitespace))),
           Grp (Rep (In digits) 4 (Some 4))]"

definition extract_contact :: "env \<Rightarrow> node \<Rightarrow> profile \<Rightarrow> profile" where
  "extract_contact env doc p =
     (let body_text = get_text doc;
          emails = find_emails (tables env) body_text;
          p = (case emails of
                 [] \<Rightarrow> p
               | e # _ \<Rightarrow> p\<lparr>contact_info := (contact_info p)\<lparr>email := Some e\<rparr>\<rparr>);
          phones = map snd (re_findall phone_pattern body_text);
          p = (case phones of
                 [] \<Rightarrow> p
               | g # _ \<Rightarrow>
                   p\<lparr>contact_info := (contact_info p)
                       \<lparr>phone := Some (group g 0 @ str ''-'' @ group g 1 @ str ''-'' @ group g 2)\<rparr>\<rparr>)
      in p)"

section \<open>The About page (lines 404-427)\<close>

text \<open>Lines 411-421: up to three paragraphs of more than 50 characters.\<close>

definition about_paragraphs :: "node \<Rightarrow> pystr list" where
  "about_paragraphs about_soup =
     take 3 (filter (\<lambda>text. 50 < length text)
               (map get_text_strip
                  (find_all [''p''] (decompose_all [''script'', ''style'', ''nav'', ''footer'', ''header''] about_soup))))"

definition scrape_about :: "env \<Rightarrow> profile \<Rightarrow> profile" where
  "scrape_about env p =
     (case page_url (about_us p) of
        None \<Rightarrow> p
      | Some u \<Rightarrow>
          if u = [] then p
          else (case requests_get env u 10 of
                  Raises e \<Rightarrow> p
                | Returns about_response \<Rightarrow>
                    (let paragraphs = about_paragraphs (soup about_response)
                     in if paragraphs \<noteq> []
                        then p\<lparr>about_us := (about_us p)\<lparr>description := Some (join_space paragraphs)\<rparr>\<rparr>
                        else p)))"

section \<open>The run (lines 61-429)\<close>

text \<open>
  Lines 174-427: the parts of the run after the About loop. None of them raises: the
  fetches of the blog page and the About page stand inside \<^verbatim>\<open>try\<close> blocks.
\<close>

definition scrape_sections :: "env \<Rightarrow> node \<Rightarrow> link list \<Rightarrow> profile \<Rightarrow> profile" where
  "scrape_sections env doc all_links p =
     (let p = find_key_pages all_links p;
          p = scrape_services env doc p;
          p = scrape_clients env doc p;
          p = scrape_process env doc p;
          p = scrape_articles env all_links p;
          p = extract_contact env doc p;
          p = scrape_about env p
      in p)"

text \<open>
  What \<^verbatim>\<open>scrape_company_profile\<close> does once the main page is fetched (lines 111-429).
  Collecting the links and choosing the About page may raise, and then the run raises.
  The console output and the file \<^verbatim>\<open>page_source.html\<close> of the debug mode are no part of
  the returned profile and are left out.
\<close>

definition extract_profile :: "env \<Rightarrow> pystr \<Rightarrow> response \<Rightarrow> py_exception + profile" where
  "extract_profile env url r =
     (let doc = soup r;
          p = empty_profile url;
          p = extract_company_name doc p
      in case collect_links env r of
           Inl e \<Rightarrow> Inl e
         | Inr all_links \<Rightarrow>
             (case find_about_page env all_links p of
                Inl e \<Rightarrow> Inl e
              | Inr p \<Rightarrow> Inr (scrape_sections env doc all_links p)))"

text \<open>
  Lines 100-109: the main page is fetched with a timeout of 15. An exception of
  \<^verbatim>\<open>RequestException\<close>, from the fetch or from \<^verbatim>\<open>raise_for_status\<close>, is caught and the
  profile returned as it is; any other exception reaches the caller (\<open>Inl\<close>).
\<close>

definition scrape_company_profile :: "env \<Rightarrow> pystr \<Rightarrow> py_exception + profile" where
  "scrape_company_profile env url =
     (let p = empty_profile url
      in case requests_get env url 15 of
           Raises e \<Rightarrow> if is_request_exception e then Inr p else Inl e
         | Returns r \<Rightarrow>
             (case raise_for_status r of
                Some e \<Rightarrow> Inr p
              | None \<Rightarrow> extract_profile env url r))"

section \<open>Collaborators for concrete runs\<close>

text \<open>
  The theorems below hold for every \<open>env\<close>. To run the scraper on a concrete page the
  collaborators are instantiated: the network by a table of pages, and \<^verbatim>\<open>urljoin\<close> and
  \<^verbatim>\<open>urlparse\<close> by their values on URLs of the form \<^verbatim>\<open>scheme://host/path\<close> with a \<^verbatim>\<open>href\<close>
  that is such a URL or an absolute path; as in the library, a network location with
  one square bracket and not the other is a \<^verbatim>\<open>ValueError\<close>. The example pages hold ASCII
  text, on which the Unicode tables are not read: \<open>demo_tables\<close> only fills their place.
\<close>

definition after_scheme :: "pystr \<Rightarrow> pystr option" where
  "after_scheme u =
     (if startswith u (str ''https://'') then Some (drop 8 u)
      else if startswith u (str ''http://'') then Some (drop 7 u)
      else None)"

definition demo_netloc :: "pystr \<Rightarrow> pystr" where
  "demo_netloc u =
     (case after_scheme u of None \<Rightarrow> [] | Some r \<Rightarrow> takeWhile (\<lambda>c. c \<notin> set (str ''/?#'')) r)"

definition demo_path :: "pystr \<Rightarrow> pystr" where
  "demo_path u =
     takeWhile (\<lambda>c. c \<notin> set (str ''?#''))
       (case after_scheme u of None \<Rightarrow> u | Some r \<Rightarrow> dropWhile (\<lambda>c. c \<notin> set (str ''/?#'')) r)"

definition demo_urlparse :: "pystr \<Rightarrow> py_exception + url_parts" where
  "demo_urlparse u =
     (if (91 \<in> set (demo_netloc u)) \<noteq> (93 \<in> set (demo_netloc u)) then Inl ValueError
      else Inr \<lparr>netloc = demo_netloc u, path = demo_path u\<rparr>)"

definition demo_urljoin :: "pystr \<Rightarrow> pystr \<Rightarrow> py_exception + pystr" where
  "demo_urljoin base href =
     (case demo_urlparse base of
        Inl e \<Rightarrow> Inl e
      | Inr parsed_base \<Rightarrow>
          (case demo_urlparse href of
             Inl e \<Rightarrow> Inl e
           | Inr parsed_href \<Rightarrow>
               if after_scheme href \<noteq> None then Inr href
               else (case after_scheme base of
                       None \<Rightarrow> Inr href
                     | Some r \<Rightarrow> Inr (take (length base - length r) base @ netloc parsed_base @ href))))"

definition demo_tables :: unicode where
  "demo_tables = \<lparr>unicode_lower = map ascii_lower, unicode_alnum = (\<lambda>c. False), unicode_decimal = (\<lambda>c. False)\<rparr>"

definition demo_get :: "(pystr \<times> get_result) list \<Rightarrow> pystr \<Rightarrow> nat \<Rightarrow> get_result" where
  "demo_get pages u t = (case map_of pages u of None \<Rightarrow> Raises ConnectionError | Some r \<Rightarrow> r)"

definition demo_env :: "(pystr \<times> get_result) list \<Rightarrow> env" where
  "demo_env pages =
     \<lparr>requests_get = demo_get pages, urljoin = demo_urljoin, urlparse = demo_urlparse,
      tables = demo_tables\<rparr>"

text \<open>
  A document with the given children, a text node, a tag whose attributes are ASCII
  literals, and a fetch answered with a status and such a document.
\<close>

definition document :: "node list \<Rightarrow> node" where
  "document cs = Tag ''[document]'' [] cs"

definition text_node :: "string \<Rightarrow> node" where
  "text_node s = NavigableString (str s)"

definition element :: "string \<Rightarrow> (string \<times> string) list \<Rightarrow> node list \<Rightarrow> node" where
  "element n attrs cs = Tag n (map (\<lambda>(k, v). (k, str v)) attrs) cs"

definition page :: "nat \<Rightarrow> string \<Rightarrow> node list \<Rightarrow> get_result" where
  "page status u cs = Returns \<lparr>status_code = status, final_url = str u, soup = document cs\<rparr>"

section \<open>Definitions for the claims\<close>

text \<open>
  Claim C1 counts every final status outside 200-299 as a failed fetch; \<open>non_2xx\<close> is
  that condition, in the words of the claim.
\<close>

definition non_2xx :: "nat \<Rightarrow> bool" where
  "non_2xx status = (\<not> (200 \<le> status \<and> status < 300))"

text \<open>A main page at \<^verbatim>\<open>https://acme.com/\<close> answered with status 200, as a response and as a site.\<close>

definition home_response :: "node list \<Rightarrow> response" where
  "home_response cs = \<lparr>status_code = 200, final_url = str ''https://acme.com/'', soup = document cs\<rparr>"

definition home_site :: "node list \<Rightarrow> (pystr \<times> get_result) list" where
  "home_site cs = [(str ''https://acme.com/'', Returns (home_response cs))]"

text \<open>
  A small site: a home page with a service list, a client section and a link to a blog,
  and the blog page. Items, logos and posts are repeated on purpose.
\<close>

definition shop_home :: "node list" where
  "shop_home =
     [element ''div'' []
        [element ''h2'' [] [text_node ''Our Services''],
         element ''ul'' []
           [element ''li'' [] [text_node ''Consulting''],
            element ''li'' [] [text_node '' Consulting ''],
            element ''li'' [] [text_node ''Training'']]],
      element ''section'' []
        [element ''h2'' [] [text_node ''Our Clients''],
         element ''img'' [(''alt'', ''Globex logo'')] [],
         element ''img'' [(''alt'', ''Globex'')] []],
      element ''a'' [(''href'', ''/blog'')] [text_node ''Blog'']]"

definition shop_blog :: "node list" where
  "shop_blog =
     [element ''div'' [(''class'', ''post'')] [element ''h2'' [] [text_node ''Launch day news'']],
      element ''div'' [(''class'', ''post'')] [element ''h2'' [] [text_node ''Launch day news'']]]"

definition shop_site :: "(pystr \<times> get_result) list" where
  "shop_site =
     [(str ''https://acme.com/'', page 200 ''https://acme.com/'' shop_home),
      (str ''https://acme.com/blog'', page 200 ''https://acme.com/blog'' shop_blog)]"

text \<open>
  Pages with a heading "Our Process" and an ordered list in one container: with three
  items longer than 5 characters, and with a first item of 4 characters.
\<close>

definition process_heading :: node where
  "process_heading = element ''h2'' [] [text_node ''Our Process'']"





text \<open>Pages for the examples of the spec on the company name.\<close>

definition titled_home :: "node list" where
  "titled_home = [element ''title'' [] [text_node ''Acme Corp | Solutions'']]"

definition og_home :: "node list" where
  "og_home =
     [element ''title'' [] [text_node ''Acme Corp | Solutions''],
      element ''meta'' [(''property'', ''og:site_name''), (''content'', ''Acme'')] []]"

definition logo_home :: "node list" where
  "logo_home =
     [element ''title'' [] [text_node ''Acme Corp | Solutions''],
      element ''meta'' [(''property'', ''og:site_name''), (''content'', ''Acme'')] [],
      element ''img'' [(''src'', ''/logo.png''), (''alt'', ''Logo'')] []]"

text \<open>
  The rule of claim C8, in the words of the claim: the first match of the e-mail pattern
  whose domain, the text after the \<^verbatim>\<open>@\<close>, is none of the three placeholder domains.
\<close>

definition email_domain :: "pystr \<Rightarrow> pystr" where
  "email_domain e = drop 1 (dropWhile (\<lambda>c. c \<noteq> 64) e)"

definition claimed_email :: "unicode \<Rightarrow> pystr \<Rightarrow> pystr option" where
  "claimed_email uc body_text =
     List.find (\<lambda>e. lower uc (email_domain e) \<notin> set email_blocklist)
       (map fst (re_findall (email_pattern uc) body_text))"

text \<open>
  Pages with two About links given as absolute URLs, with the two About links of the
  spec's example, with a link that says "Refund policy", and a site whose About page and
  blog answer with status 404.
\<close>

definition about_links_site :: "(pystr \<times> get_result) list" where
  "about_links_site =
     home_site
       [element ''a'' [(''href'', ''https://acme.com/about-us'')] [text_node ''About us''],
        element ''a'' [(''href'', ''https://acme.com/about'')] [text_node ''About'']]"

definition about_example_site :: "(pystr \<times> get_result) list" where
  "about_example_site =
     home_site
       [element ''a'' [(''href'', ''/about-us/our-story'')] [text_node ''Our story''],
        element ''a'' [(''href'', ''/about'')] [text_node ''About'']]"

definition refund_site :: "(pystr \<times> get_result) list" where
  "refund_site =
     home_site [element ''a'' [(''href'', ''/policy/money-back'')] [text_node ''Refund policy'']]"

definition not_found_site :: "(pystr \<times> get_result) list" where
  "not_found_site =
     home_site
       [element ''a'' [(''href'', ''/about'')] [text_node ''About''],
        element ''a'' [(''href'', ''/blog'')] [text_node ''Blog'']]
     @ [(str ''https://acme.com/about'',
         page 404 ''https://acme.com/about''
           [element ''p'' [] [text_node ''The page you are looking for could not be found on this server.'']]),
        (str ''https://acme.com/blog'',
         page 404 ''https://acme.com/blog''
           [element ''div'' [(''class'', ''error'')] [element ''h1'' [] [text_node ''Page not found'']]])]"

text \<open>
  Text that is not ASCII: a title with a no-break space (U+00A0) before the separator, an
  e-mail address right after two CJK letters (U+8054, U+7CFB), and a list item of five
  characters of which one is U+00E9. \<open>cjk_tables\<close> tells that the two letters are
  alphanumeric, as the Unicode database does.
\<close>

definition nbsp_title_home :: "node list" where
  "nbsp_title_home = [Tag ''title'' [] [NavigableString (str ''Acme Corp'' @ [160] @ str ''| Home'')]]"

definition cjk_email_home :: "node list" where
  "cjk_email_home = [Tag ''p'' [] [NavigableString ([32852, 31995] @ str ''info@acme.com'')]]"

definition cjk_tables :: unicode where
  "cjk_tables = demo_tables\<lparr>unicode_alnum := (\<lambda>c. c \<in> set [32852, 31995])\<rparr>"

definition accent_item_home :: "node list" where
  "accent_item_home =
     [element ''div'' []
        [process_heading,
         Tag ''ol'' []
           [Tag ''li'' [] [NavigableString [73, 100, 233, 101, 33]],
            element ''li'' [] [text_node ''Build things'']]]]"

text \<open>A page with a link whose \<^verbatim>\<open>href\<close> \<^verbatim>\<open>urljoin\<close> rejects.\<close>

definition bad_href_home :: "node list" where
  "bad_href_home =
     [element ''title'' [] [text_node ''Acme''],
      element ''a'' [(''href'', ''http://[bad'')] [text_node ''Contact'']]"


text \<open>
  A site whose blog has three posts titled by a link; the \<^verbatim>\<open>href\<close> of the second is one
  that \<^verbatim>\<open>urljoin\<close> rejects.
\<close>

definition broken_blog :: "node list" where
  "broken_blog =
     [element ''div'' [(''class'', ''post'')]
        [element ''a'' [(''href'', ''/blog/launch'')] [text_node ''Launch day news'']],
      element ''div'' [(''class'', ''post'')]
        [element ''a'' [(''href'', ''http://[bad'')] [text_node ''A broken link'']],
      element ''div'' [(''class'', ''post'')]
        [element ''a'' [(''href'', ''/blog/hiring'')] [text_node ''We are hiring'']]]"

definition broken_blog_site :: "(pystr \<times> get_result) list" where
  "broken_blog_site =
     [(str ''https://acme.com/'',
       page 200 ''https://acme.com/'' [element ''a'' [(''href'', ''/blog'')] [text_node ''Blog'']]),
      (str ''https://acme.com/blog'', page 200 ''https://acme.com/blog'' broken_blog)]"
section \<open>What each part of the run leaves alone\<close>

lemma scrape_about_frame:
  "company_name (scrape_about env p) = company_name p"
  "website (scrape_about env p) = website p"
  "services (scrape_about env p) = services p"
  "clients (scrape_about env p) = clients p"
  "process (scrape_about env p) = process p"
  "articles (scrape_about env p) = articles p"
  "contact_info (scrape_about env p) = contact_info p"
  "careers (scrape_about env p) = careers p"
  "policies (scrape_about env p) = policies p"
  "page_url (about_us (scrape_about env p)) = page_url (about_us p)"
  by (simp_all add: scrape_about_def Let_def split: option.split get_result.split)

lemma extract_contact_frame:
  "company_name (extract_contact env doc p) = company_name p"
  "website (extract_contact env doc p) = website p"
  "about_us (extract_contact env doc p) = about_us p"
  "services (extract_contact env doc p) = services p"
  "clients (extract_contact env doc p) = clients p"
  "process (extract_contact env doc p) = process p"
  "articles (extract_contact env doc p) = articles p"
  "careers (extract_contact env doc p) = careers p"
  "policies (extract_contact env doc p) = policies p"
  "contact_page (contact_info (extract_contact env doc p)) = contact_page (contact_info p)"
  "address (contact_info (extract_contact env doc p)) = address (contact_info p)"
  by (simp_all add: extract_contact_def Let_def split: list.split)

lemma scrape_articles_frame:
  "company_name (scrape_articles env l p) = company_name p"
  "website (scrape_articles env l p) = website p"
  "about_us (scrape_articles env l p) = about_us p"
  "services (scrape_articles env l p) = services p"
  "clients (scrape_articles env l p) = clients p"
  "process (scrape_articles env l p) = process p"
  "contact_info (scrape_articles env l p) = contact_info p"
  "careers (scrape_articles env l p) = careers p"
  "policies (scrape_articles env l p) = policies p"
  by (simp_all add: scrape_articles_def split: list.split get_result.split)

lemma simple_frames:
  "website (extract_company_name doc p) = website p"
  "about_us (extract_company_name doc p) = about_us p"
  "services (extract_company_name doc p) = services p"
  "clients (extract_company_name doc p) = clients p"
  "process (extract_company_name doc p) = process p"
  "articles (extract_company_name doc p) = articles p"
  "contact_info (extract_company_name doc p) = contact_info p"
  "careers (extract_company_name doc p) = careers p"
  "policies (extract_company_name doc p) = policies p"
  "company_name (find_key_pages l p) = company_name p"
  "website (find_key_pages l p) = website p"
  "about_us (find_key_pages l p) = about_us p"
  "services (find_key_pages l p) = services p"
  "clients (find_key_pages l p) = clients p"
  "process (find_key_pages l p) = process p"
  "articles (find_key_pages l p) = articles p"
  "email (contact_info (find_key_pages l p)) = email (contact_info p)"
  "phone (contact_info (find_key_pages l p)) = phone (contact_info p)"
  "address (contact_info (find_key_pages l p)) = address (contact_info p)"
  by (simp_all add: extract_company_name_def find_key_pages_def Let_def)

lemma list_frames:
  "company_name (scrape_services env doc p) = company_name p"
  "website (scrape_services env doc p) = website p"
  "about_us (scrape_services env doc p) = about_us p"
  "clients (scrape_services env doc p) = clients p"
  "process (scrape_services env doc p) = process p"
  "articles (scrape_services env doc p) = articles p"
  "contact_info (scrape_services env doc p) = contact_info p"
  "careers (scrape_services env doc p) = careers p"
  "policies (scrape_services env doc p) = policies p"
  "company_name (scrape_clients env doc p) = company_name p"
  "website (scrape_clients env doc p) = website p"
  "about_us (scrape_clients env doc p) = about_us p"
  "services (scrape_clients env doc p) = services p"
  "process (scrape_clients env doc p) = process p"
  "articles (scrape_clients env doc p) = articles p"
  "contact_info (scrape_clients env doc p) = contact_info p"
  "careers (scrape_clients env doc p) = careers p"
  "policies (scrape_clients env doc p) = policies p"
  "company_name (scrape_process env doc p) = company_name p"
  "website (scrape_process env doc p) = website p"
  "about_us (scrape_process env doc p) = about_us p"
  "services (scrape_process env doc p) = services p"
  "clients (scrape_process env doc p) = clients p"
  "articles (scrape_process env doc p) = articles p"
  "contact_info (scrape_process env doc p) = contact_info p"
  "careers (scrape_process env doc p) = careers p"
  "policies (scrape_process env doc p) = policies p"
  by (simp_all add: scrape_services_def scrape_clients_def scrape_process_def)

lemmas frames = scrape_about_frame extract_contact_frame scrape_articles_frame simple_frames list_frames

text \<open>The About loop only assigns the About URL.\<close>

lemma find_about_page_frame:
  assumes "find_about_page env l p = Inr p'"
  shows "company_name p' = company_name p" "website p' = website p" "services p' = services p"
    "clients p' = clients p" "process p' = process p" "articles p' = articles p"
    "contact_info p' = contact_info p" "careers p' = careers p" "policies p' = policies p"
    "description (about_us p') = description (about_us p)"
    "find_about env l (page_url (about_us p)) = Inr (page_url (about_us p'))"
  using assms by (auto simp: find_about_page_def split: sum.splits)

text \<open>What the parts after the About loop make of each field.\<close>

lemma scrape_sections_fields:
  "company_name (scrape_sections env doc l p) = company_name p"
  "website (scrape_sections env doc l p) = website p"
  "page_url (about_us (scrape_sections env doc l p)) = page_url (about_us p)"
  "address (contact_info (scrape_sections env doc l p)) = address (contact_info p)"
  "services (scrape_sections env doc l p) = services_method2 doc (services_method1 (tables env) doc (services p))"
  "clients (scrape_sections env doc l p) = clients_loop (tables env) doc (clients p)"
  "process (scrape_sections env doc l p) = process_loop (tables env) doc (process p)"
  "articles (scrape_sections env doc l p) = articles (scrape_articles env l p)"
  "returns_policy (policies (scrape_sections env doc l p))
     = first_link is_returns_link l (returns_policy (policies p))"
proof -
  show "company_name (scrape_sections env doc l p) = company_name p"
    by (simp add: scrape_sections_def Let_def frames)
  show "website (scrape_sections env doc l p) = website p"
    by (simp add: scrape_sections_def Let_def frames)
  show "page_url (about_us (scrape_sections env doc l p)) = page_url (about_us p)"
    by (simp add: scrape_sections_def Let_def frames)
  show "address (contact_info (scrape_sections env doc l p)) = address (contact_info p)"
    by (simp add: scrape_sections_def Let_def frames)
  show "services (scrape_sections env doc l p)
        = services_method2 doc (services_method1 (tables env) doc (services p))"
    by (simp add: scrape_sections_def Let_def frames) (simp add: scrape_services_def frames)
  show "clients (scrape_sections env doc l p) = clients_loop (tables env) doc (clients p)"
    by (simp add: scrape_sections_def Let_def frames) (simp add: scrape_clients_def frames)
  show "process (scrape_sections env doc l p) = process_loop (tables env) doc (process p)"
    by (simp add: scrape_sections_def Let_def frames) (simp add: scrape_process_def frames)
  show "articles (scrape_sections env doc l p) = articles (scrape_articles env l p)"
    by (simp add: scrape_sections_def Let_def frames)
       (simp add: scrape_articles_def frames split: list.split get_result.split)
  show "returns_policy (policies (scrape_sections env doc l p))
        = first_link is_returns_link l (returns_policy (policies p))"
    by (simp add: scrape_sections_def Let_def frames) (simp add: find_key_pages_def Let_def)
qed

text \<open>
  The run returns a profile in three ways: the main page was not fetched, or it was
  fetched and the link catalog and the About loop went through.
\<close>

lemma extract_profile_Inr:
  assumes "extract_profile env url r = Inr p"
  obtains l p0 where "collect_links env r = Inr l"
    and "find_about_page env l (extract_company_name (soup r) (empty_profile url)) = Inr p0"
    and "p = scrape_sections env (soup r) l p0"
  using assms by (auto simp: extract_profile_def Let_def split: sum.splits)

lemma scrape_cases:
  assumes "scrape_company_profile env url = Inr p"
  obtains "p = empty_profile url"
  | r where "requests_get env url 15 = Returns r" and "raise_for_status r = None"
      and "extract_profile env url r = Inr p"
  using assms
  by (auto simp: scrape_company_profile_def Let_def split: get_result.splits option.splits if_splits)

section \<open>C1: a failed fetch of the main page\<close>

text \<open>
  C1 (as amended): for every URL, when the fetch of the main page raises an exception of
  \<^verbatim>\<open>RequestException\<close> (network error, timeout) or ends with a status from 400 to 599,
  \<^verbatim>\<open>scrape_company_profile\<close> returns, without raising, the profile in which \<open>website\<close> is
  the requested URL, every optional field is \<open>None\<close> and every sequence is empty.
\<close>

theorem primary_fetch_failure_default_profile:
  assumes "case requests_get env url 15 of
             Raises e \<Rightarrow> is_request_exception e
           | Returns r \<Rightarrow> 400 \<le> status_code r \<and> status_code r < 600"
  shows "scrape_company_profile env url =
           Inr \<lparr>company_name = None, website = url,
                about_us = \<lparr>description = None, page_url = None\<rparr>,
                services = [], clients = [], process = [], articles = [],
                contact_info = \<lparr>contact_page = None, email = None, phone = None, address = None\<rparr>,
                careers = \<lparr>careers_page_url = None\<rparr>,
                policies = \<lparr>privacy_policy = None, returns_policy = None, terms_of_service = None\<rparr>\<rparr>"
proof (cases "requests_get env url 15")
  case (Raises e)
  with assms show ?thesis
    by (simp add: scrape_company_profile_def empty_profile_def)
next
  case (Returns r)
  with assms have "raise_for_status r = Some (HTTPError (status_code r))"
    by (simp add: raise_for_status_def)
  with Returns show ?thesis
    by (simp add: scrape_company_profile_def empty_profile_def)
qed

text \<open>
  The theorem at a page answered with status 404 (its body, which has a title, is not
  read) and at a fetch that times out.
\<close>

theorem primary_fetch_failure_witness:
  "scrape_company_profile
     (demo_env [(str ''https://acme.com/'',
                 page 404 ''https://acme.com/'' [element ''title'' [] [text_node ''Not Found'']])])
     (str ''https://acme.com/'')
   = Inr \<lparr>company_name = None, website = str ''https://acme.com/'',
          about_us = \<lparr>description = None, page_url = None\<rparr>,
          services = [], clients = [], process = [], articles = [],
          contact_info = \<lparr>contact_page = None, email = None, phone = None, address = None\<rparr>,
          careers = \<lparr>careers_page_url = None\<rparr>,
          policies = \<lparr>privacy_policy = None, returns_policy = None, terms_of_service = None\<rparr>\<rparr>
   \<and> scrape_company_profile (demo_env [(str ''https://acme.com/'', Raises Timeout)]) (str ''https://acme.com/'')
   = Inr \<lparr>company_name = None, website = str ''https://acme.com/'',
          about_us = \<lparr>description = None, page_url = None\<rparr>,
          services = [], clients = [], process = [], articles = [],
          contact_info = \<lparr>contact_page = None, email = None, phone = None, address = None\<rparr>,
          careers = \<lparr>careers_page_url = None\<rparr>,
          policies = \<lparr>privacy_policy = None, returns_policy = None, terms_of_service = None\<rparr>\<rparr>"
  using primary_fetch_failure_default_profile
          [of "demo_env [(str ''https://acme.com/'',
                 page 404 ''https://acme.com/'' [element ''title'' [] [text_node ''Not Found'']])]"
              "str ''https://acme.com/''"]
        primary_fetch_failure_default_profile
          [of "demo_env [(str ''https://acme.com/'', Raises Timeout)]" "str ''https://acme.com/''"]
  by (simp add: demo_env_def demo_get_def page_def is_request_exception_def)

text \<open>
  The claim as stated fails at a final status of 300 (Multiple Choices, which
  \<^verbatim>\<open>requests\<close> does not follow): \<^verbatim>\<open>raise_for_status\<close> does not raise, the body is parsed
  and the title becomes the company name.
\<close>

theorem primary_fetch_3xx_counterexample:
  "non_2xx 300
   \<and> scrape_company_profile
       (demo_env [(str ''https://acme.com/'',
                   page 300 ''https://acme.com/'' [element ''title'' [] [text_node ''Acme'']])])
       (str ''https://acme.com/'')
     = Inr \<lparr>company_name = Some (str ''Acme''), website = str ''https://acme.com/'',
            about_us = \<lparr>description = None, page_url = None\<rparr>,
            services = [], clients = [], process = [], articles = [],
            contact_info = \<lparr>contact_page = None, email = None, phone = None, address = None\<rparr>,
            careers = \<lparr>careers_page_url = None\<rparr>,
            policies = \<lparr>privacy_policy = None, returns_policy = None, terms_of_service = None\<rparr>\<rparr>"
  by code_simp

section \<open>C10: the address\<close>

lemma extract_profile_address:
  assumes "extract_profile env url r = Inr p"
  shows "address (contact_info p) = None"
proof -
  from assms obtain l p0 where
    about: "find_about_page env l (extract_company_name (soup r) (empty_profile url)) = Inr p0"
    and p: "p = scrape_sections env (soup r) l p0"
    by (rule extract_profile_Inr)
  from find_about_page_frame(7) [OF about] have "address (contact_info p0) = None"
    by (simp add: frames empty_profile_def)
  with p show ?thesis
    by (simp add: scrape_sections_fields)
qed

text \<open>
  C10: whatever the run fetches, the \<open>address\<close> field of \<open>contact_info\<close> in the returned
  profile is \<open>None\<close>: the field is part of the record from its construction on (line 80)
  and no part of the run assigns it.
\<close>

theorem address_always_none:
  assumes "scrape_company_profile env url = Inr p"
  shows "address (contact_info p) = None"
  using assms
proof (cases rule: scrape_cases)
  case 1
  then show ?thesis by (simp add: empty_profile_def)
next
  case (2 r)
  then show ?thesis by (simp add: extract_profile_address)
qed

text \<open>The theorem at a page that gives an e-mail address and a telephone number.\<close>

theorem address_always_none_witness:
  "scrape_company_profile
     (demo_env [(str ''https://acme.com/'',
                 page 200 ''https://acme.com/''
                   [element ''p'' [] [text_node ''Acme Corp, 1 Main Street. Mail sales@acme.com or call 555-123-4567'']])])
     (str ''https://acme.com/'')
   = Inr \<lparr>company_name = None, website = str ''https://acme.com/'',
          about_us = \<lparr>description = None, page_url = None\<rparr>,
          services = [], clients = [], process = [], articles = [],
          contact_info = \<lparr>contact_page = None, email = Some (str ''sales@acme.com''),
                          phone = Some (str ''555-123-4567''), address = None\<rparr>,
          careers = \<lparr>careers_page_url = None\<rparr>,
          policies = \<lparr>privacy_policy = None, returns_policy = None, terms_of_service = None\<rparr>\<rparr>
   \<and> address (contact_info
        \<lparr>company_name = None, website = str ''https://acme.com/'',
          about_us = \<lparr>description = None, page_url = None\<rparr>,
          services = [], clients = [], process = [], articles = [],
          contact_info = \<lparr>contact_page = None, email = Some (str ''sales@acme.com''),
                          phone = Some (str ''555-123-4567''), address = None\<rparr>,
          careers = \<lparr>careers_page_url = None\<rparr>,
          policies = \<lparr>privacy_policy = None, returns_policy = None, terms_of_service = None\<rparr>\<rparr>) = None"
proof -
  have run: "scrape_company_profile
     (demo_env [(str ''https://acme.com/'',
                 page 200 ''https://acme.com/''
                   [element ''p'' [] [text_node ''Acme Corp, 1 Main Street. Mail sales@acme.com or call 555-123-4567'']])])
     (str ''https://acme.com/'')
   = Inr \<lparr>company_name = None, website = str ''https://acme.com/'',
          about_us = \<lparr>description = None, page_url = None\<rparr>,
          services = [], clients = [], process = [], articles = [],
          contact_info = \<lparr>contact_page = None, email = Some (str ''sales@acme.com''),
                          phone = Some (str ''555-123-4567''), address = None\<rparr>,
          careers = \<lparr>careers_page_url = None\<rparr>,
          policies = \<lparr>privacy_policy = None, returns_policy = None, terms_of_service = None\<rparr>\<rparr>"
    by code_simp
  from address_always_none [OF run] run show ?thesis
    by blast
qed

section \<open>C2: no duplicates\<close>

lemma foldl_distinct:
  assumes "\<And>acc x. distinct acc \<Longrightarrow> distinct (f acc x)"
  shows "distinct acc \<Longrightarrow> distinct (foldl f acc xs)"
  using assms by (induction xs arbitrary: acc) simp_all

lemma fold_caught_distinct:
  assumes "\<And>acc x acc'. distinct acc \<Longrightarrow> f acc x = Inr acc' \<Longrightarrow> distinct acc'"
  shows "distinct acc \<Longrightarrow> distinct (fold_caught f acc xs)"
proof (induction xs arbitrary: acc)
  case Nil
  then show ?case by simp
next
  case (Cons x xs)
  show ?case
  proof (cases "f acc x")
    case (Inl e)
    with Cons.prems show ?thesis by simp
  next
    case (Inr acc')
    with Cons.prems have "distinct acc'" by (rule assms)
    with Inr show ?thesis by (simp add: Cons.IH)
  qed
qed

lemma services_from_lists_distinct: "distinct acc \<Longrightarrow> distinct (services_from_lists parent acc)"
  unfolding services_from_lists_def by (rule foldl_distinct) (simp_all add: Let_def)

lemma services_from_cards_distinct: "distinct acc \<Longrightarrow> distinct (services_from_cards parent acc)"
  unfolding services_from_cards_def by (rule foldl_distinct) (simp_all add: Let_def split: option.split)

lemma services_method1_distinct: "distinct acc \<Longrightarrow> distinct (services_method1 uc doc acc)"
  unfolding services_method1_def
  by (rule foldl_distinct)
     (simp_all add: services_from_lists_distinct services_from_cards_distinct split: prod.split option.split)

lemma services_method2_distinct: "distinct acc \<Longrightarrow> distinct (services_method2 doc acc)"
  unfolding services_method2_def by (rule foldl_distinct) (simp_all add: Let_def split: prod.split)

lemma clients_from_images_distinct: "distinct acc \<Longrightarrow> distinct (clients_from_images parent acc)"
  unfolding clients_from_images_def by (rule foldl_distinct) (simp_all add: Let_def)

lemma clients_from_text_distinct: "distinct acc \<Longrightarrow> distinct (clients_from_text parent acc)"
  unfolding clients_from_text_def by (rule foldl_distinct) (simp_all add: Let_def)

lemma clients_loop_distinct: "distinct acc \<Longrightarrow> distinct (clients_loop uc doc acc)"
  unfolding clients_loop_def
  by (rule foldl_distinct)
     (simp_all add: clients_from_images_distinct clients_from_text_distinct split: prod.split option.split)

lemma article_step_distinct:
  "distinct acc \<Longrightarrow> article_step env b acc art = Inr acc' \<Longrightarrow> distinct acc'"
  by (auto simp: article_step_def Let_def split: option.splits if_splits sum.splits)

lemma articles_from_distinct: "distinct acc \<Longrightarrow> distinct (articles_from env b doc acc)"
  unfolding articles_from_def by (rule fold_caught_distinct) (rule article_step_distinct)

lemma scrape_articles_distinct: "distinct (articles p) \<Longrightarrow> distinct (articles (scrape_articles env l p))"
  by (simp add: scrape_articles_def articles_from_distinct split: list.split get_result.split)

lemma extract_profile_distinct:
  assumes "extract_profile env url r = Inr p"
  shows "distinct (services p)" "distinct (clients p)" "distinct (articles p)"
proof -
  from assms obtain l p0 where
    about: "find_about_page env l (extract_company_name (soup r) (empty_profile url)) = Inr p0"
    and p: "p = scrape_sections env (soup r) l p0"
    by (rule extract_profile_Inr)
  from find_about_page_frame [OF about]
  have "services p0 = []" "clients p0 = []" "articles p0 = []"
    by (simp_all add: frames empty_profile_def)
  with p show "distinct (services p)" "distinct (clients p)" "distinct (articles p)"
    by (simp_all add: scrape_sections_fields services_method1_distinct services_method2_distinct
          clients_loop_distinct scrape_articles_distinct)
qed

text \<open>
  C2: in the profile of every completed run the sequences \<open>services\<close>, \<open>clients\<close> and
  \<open>articles\<close> hold no entry twice (equality of strings; equality of the title and URL
  of an article).
\<close>

theorem no_duplicates:
  assumes "scrape_company_profile env url = Inr p"
  shows "distinct (services p) \<and> distinct (clients p) \<and> distinct (articles p)"
  using assms
proof (cases rule: scrape_cases)
  case 1
  then show ?thesis by (simp add: empty_profile_def)
next
  case (2 r)
  then show ?thesis by (simp add: extract_profile_distinct)
qed

text \<open>The theorem on the small site, where every entry occurs twice in the pages.\<close>

theorem no_duplicates_witness:
  "scrape_company_profile (demo_env shop_site) (str ''https://acme.com/'') =
     Inr \<lparr>company_name = Some (str ''Globex''), website = str ''https://acme.com/'',
          about_us = \<lparr>description = None, page_url = None\<rparr>,
          services = [str ''Consulting'', str ''Training''], clients = [str ''Globex''], process = [],
          articles = [\<lparr>title = str ''Launch day news'', article_url = None\<rparr>],
          contact_info = \<lparr>contact_page = None, email = None, phone = None, address = None\<rparr>,
          careers = \<lparr>careers_page_url = None\<rparr>,
          policies = \<lparr>privacy_policy = None, returns_policy = None, terms_of_service = None\<rparr>\<rparr>
   \<and> distinct [str ''Consulting'', str ''Training''] \<and> distinct [str ''Globex'']
   \<and> distinct [\<lparr>title = str ''Launch day news'', article_url = None\<rparr>]"
proof -
  have run: "scrape_company_profile (demo_env shop_site) (str ''https://acme.com/'') =
     Inr \<lparr>company_name = Some (str ''Globex''), website = str ''https://acme.com/'',
          about_us = \<lparr>description = None, page_url = None\<rparr>,
          services = [str ''Consulting'', str ''Training''], clients = [str ''Globex''], process = [],
          articles = [\<lparr>title = str ''Launch day news'', article_url = None\<rparr>],
          contact_info = \<lparr>contact_page = None, email = None, phone = None, address = None\<rparr>,
          careers = \<lparr>careers_page_url = None\<rparr>,
          policies = \<lparr>privacy_policy = None, returns_policy = None, terms_of_service = None\<rparr>\<rparr>"
    by code_simp
  from no_duplicates [OF run] have
    "distinct [str ''Consulting'', str ''Training''] \<and> distinct [str ''Globex'']
     \<and> distinct [\<lparr>title = str ''Launch day news'', article_url = None\<rparr>]"
    by (simp only: profile.simps)
  with run show ?thesis by (simp only: simp_thms)
qed

section \<open>C4: the About page\<close>

text \<open>The About URL of the profile is what the loop of lines 166-169 leaves.\<close>

lemma extract_profile_about_url:
  assumes "extract_profile env url r = Inr p"
  obtains l where "collect_links env r = Inr l" and "find_about env l None = Inr (page_url (about_us p))"
proof -
  from assms obtain l p0 where
    links: "collect_links env r = Inr l"
    and about: "find_about_page env l (extract_company_name (soup r) (empty_profile url)) = Inr p0"
    and p: "p = scrape_sections env (soup r) l p0"
    by (rule extract_profile_Inr)
  from find_about_page_frame(11) [OF about] p
  have "find_about env l None = Inr (page_url (about_us p))"
    by (simp add: frames empty_profile_def scrape_sections_fields)
  with links show ?thesis by (rule that)
qed

text \<open>
  C4: the claim is that the About resolver scans the whole catalog and selects, among
  the links with "about" in the \<^verbatim>\<open>href\<close> or the text, the one whose \<^verbatim>\<open>href\<close> path has the
  fewest characters. The code does scan the whole catalog, but it compares the length of
  the candidate's raw \<^verbatim>\<open>href\<close> with the length of the path of the URL chosen so far
  (line 168). For links given as absolute URLs the two are not the same measure: of the
  links \<^verbatim>\<open>https://acme.com/about-us\<close> and \<^verbatim>\<open>https://acme.com/about\<close>, in this order,
  the first stays chosen although the path of the second is shorter.
\<close>

theorem about_resolver_keeps_longer_path:
  "scrape_company_profile (demo_env about_links_site) (str ''https://acme.com/'')
     = Inr \<lparr>company_name = None, website = str ''https://acme.com/'',
            about_us = \<lparr>description = None, page_url = Some (str ''https://acme.com/about-us'')\<rparr>,
            services = [], clients = [], process = [], articles = [],
            contact_info = \<lparr>contact_page = None, email = None, phone = None, address = None\<rparr>,
            careers = \<lparr>careers_page_url = None\<rparr>,
            policies = \<lparr>privacy_policy = None, returns_policy = None, terms_of_service = None\<rparr>\<rparr>
   \<and> demo_path (str ''https://acme.com/about-us'') = str ''/about-us''
   \<and> demo_path (str ''https://acme.com/about'') = str ''/about''"
  by code_simp

text \<open>
  On the example of the claim, two links with the paths \<^verbatim>\<open>/about-us/our-story\<close> and
  \<^verbatim>\<open>/about\<close> as their \<^verbatim>\<open>href\<close>, the shorter one is chosen.
\<close>

lemma about_resolver_example:
  "scrape_company_profile (demo_env about_example_site) (str ''https://acme.com/'')
     = Inr \<lparr>company_name = None, website = str ''https://acme.com/'',
            about_us = \<lparr>description = None, page_url = Some (str ''https://acme.com/about'')\<rparr>,
            services = [], clients = [], process = [], articles = [],
            contact_info = \<lparr>contact_page = None, email = None, phone = None, address = None\<rparr>,
            careers = \<lparr>careers_page_url = None\<rparr>,
            policies = \<lparr>privacy_policy = None, returns_policy = None, terms_of_service = None\<rparr>\<rparr>"
  by code_simp

section \<open>C6: the returns policy\<close>

text \<open>The returns policy of the profile is the URL of the first link that line 203 accepts.\<close>

lemma extract_profile_returns_policy:
  assumes "extract_profile env url r = Inr p"
  obtains l where "collect_links env r = Inr l"
    and "returns_policy (policies p) = map_option link_url (List.find is_returns_link l)"
proof -
  from assms obtain l p0 where
    links: "collect_links env r = Inr l"
    and about: "find_about_page env l (extract_company_name (soup r) (empty_profile url)) = Inr p0"
    and p: "p = scrape_sections env (soup r) l p0"
    by (rule extract_profile_Inr)
  from find_about_page_frame(9) [OF about] have "returns_policy (policies p0) = None"
    by (simp add: frames empty_profile_def)
  with p have "returns_policy (policies p) = map_option link_url (List.find is_returns_link l)"
    by (simp add: scrape_sections_fields first_link_def split: option.split)
  with links show ?thesis by (rule that)
qed

text \<open>
  C6: the claim is that the Returns-policy resolver takes the first link whose \<^verbatim>\<open>href\<close> or
  text holds "return" or "refund", so that "refund" in the text alone selects a link.
  The code takes the first match and stops, but line 203 looks for "return" and "refund"
  in the \<^verbatim>\<open>href\<close> and only for "return" in the text: a link whose text is
  "Refund policy" and whose \<^verbatim>\<open>href\<close> holds neither word is not taken.
\<close>

theorem returns_resolver_misses_refund_text:
  "str_in (str ''refund'') (lower demo_tables (str ''Refund policy''))
   \<and> scrape_company_profile (demo_env refund_site) (str ''https://acme.com/'')
     = Inr \<lparr>company_name = None, website = str ''https://acme.com/'',
            about_us = \<lparr>description = None, page_url = None\<rparr>,
            services = [], clients = [], process = [], articles = [],
            contact_info = \<lparr>contact_page = None, email = None, phone = None, address = None\<rparr>,
            careers = \<lparr>careers_page_url = None\<rparr>,
            policies = \<lparr>privacy_policy = None, returns_policy = None, terms_of_service = None\<rparr>\<rparr>"
  by code_simp

section \<open>C7: the pages fetched after the main page\<close>

text \<open>A fetch that raises is skipped and the run goes on with the profile as it is.\<close>

lemma scrape_articles_raises:
  "blog_urls all_links = b # bs \<Longrightarrow> requests_get env b 10 = Raises e \<Longrightarrow>
   scrape_articles env all_links p = p"
  by (simp add: scrape_articles_def)

lemma scrape_about_raises:
  "page_url (about_us p) = Some u \<Longrightarrow> requests_get env u 10 = Raises e \<Longrightarrow> scrape_about env p = p"
  by (simp add: scrape_about_def)

text \<open>
  C7: the claim is that a failed fetch of the About page or the blog page, a status
  outside 200-299 included, is skipped: the description and the articles stay at their
  defaults and the run goes on. The code skips a fetch that raises, but lines 357 and 407
  do not call \<^verbatim>\<open>raise_for_status\<close> as line 103 does for the main page: an About page and
  a blog page answered with status 404 are parsed like any other, the text of the error
  page becomes the description and its heading an article.
\<close>

theorem secondary_404_is_parsed:
  "scrape_company_profile (demo_env not_found_site) (str ''https://acme.com/'')
     = Inr \<lparr>company_name = None, website = str ''https://acme.com/'',
            about_us = \<lparr>description = Some (str ''The page you are looking for could not be found on this server.''),
                        page_url = Some (str ''https://acme.com/about'')\<rparr>,
            services = [], clients = [], process = [],
            articles = [\<lparr>title = str ''Page not found'', article_url = None\<rparr>],
            contact_info = \<lparr>contact_page = None, email = None, phone = None, address = None\<rparr>,
            careers = \<lparr>careers_page_url = None\<rparr>,
            policies = \<lparr>privacy_policy = None, returns_policy = None, terms_of_service = None\<rparr>\<rparr>"
  by code_simp

section \<open>C5: the company name\<close>

text \<open>
  On the examples of the spec the name is resolved as the claim says: the title
  "Acme Corp | Solutions" alone gives "Acme Corp"; with an \<^verbatim>\<open>og:site_name\<close> of "Acme" the
  name is "Acme".
\<close>

lemma company_name_examples:
  "scrape_company_profile (demo_env (home_site titled_home)) (str ''https://acme.com/'')
     = Inr \<lparr>company_name = Some (str ''Acme Corp''), website = str ''https://acme.com/'',
            about_us = \<lparr>description = None, page_url = None\<rparr>,
            services = [], clients = [], process = [], articles = [],
            contact_info = \<lparr>contact_page = None, email = None, phone = None, address = None\<rparr>,
            careers = \<lparr>careers_page_url = None\<rparr>,
            policies = \<lparr>privacy_policy = None, returns_policy = None, terms_of_service = None\<rparr>\<rparr>"
  "scrape_company_profile (demo_env (home_site og_home)) (str ''https://acme.com/'')
     = Inr \<lparr>company_name = Some (str ''Acme''), website = str ''https://acme.com/'',
            about_us = \<lparr>description = None, page_url = None\<rparr>,
            services = [], clients = [], process = [], articles = [],
            contact_info = \<lparr>contact_page = None, email = None, phone = None, address = None\<rparr>,
            careers = \<lparr>careers_page_url = None\<rparr>,
            policies = \<lparr>privacy_policy = None, returns_policy = None, terms_of_service = None\<rparr>\<rparr>"
  by code_simp+

text \<open>
  C5: the claim is that the name is resolved last-match-wins from the title, the
  \<^verbatim>\<open>og:site_name\<close> content and the logo \<^verbatim>\<open>alt\<close>, and that only a non-empty result overwrites
  \<open>company_name\<close>, a source that yields the empty text after stripping being skipped. The
  guards of lines 133 and 139 test the raw \<^verbatim>\<open>content\<close> and \<^verbatim>\<open>alt\<close>, not the text that is
  stored: with the title and the \<^verbatim>\<open>og:site_name\<close> of the examples and an image whose \<^verbatim>\<open>alt\<close>
  is "Logo", the name "Acme" found so far is overwritten by the empty text.
\<close>

theorem logo_alt_erases_company_name:
  "from_og_site_name (document logo_home) (from_title (document logo_home) None) = Some (str ''Acme'')
   \<and> from_logo (document logo_home) (Some (str ''Acme'')) = Some []
   \<and> scrape_company_profile (demo_env (home_site logo_home)) (str ''https://acme.com/'')
     = Inr \<lparr>company_name = Some [], website = str ''https://acme.com/'',
            about_us = \<lparr>description = None, page_url = None\<rparr>,
            services = [], clients = [], process = [], articles = [],
            contact_info = \<lparr>contact_page = None, email = None, phone = None, address = None\<rparr>,
            careers = \<lparr>careers_page_url = None\<rparr>,
            policies = \<lparr>privacy_policy = None, returns_policy = None, terms_of_service = None\<rparr>\<rparr>"
  by code_simp

section \<open>C8: the contact e-mail\<close>

lemma extract_contact_email:
  "email (contact_info (extract_contact env doc p))
   = (case find_emails (tables env) (get_text doc) of [] \<Rightarrow> email (contact_info p) | e # _ \<Rightarrow> Some e)"
  by (simp add: extract_contact_def Let_def split: list.split)

lemma scrape_sections_email:
  "email (contact_info (scrape_sections env doc l p))
   = (case find_emails (tables env) (get_text doc) of [] \<Rightarrow> email (contact_info p) | e # _ \<Rightarrow> Some e)"
  by (simp add: scrape_sections_def Let_def frames extract_contact_email split: list.split)

lemma extract_profile_email:
  assumes "extract_profile env url r = Inr p"
  shows "email (contact_info p)
         = (case find_emails (tables env) (get_text (soup r)) of [] \<Rightarrow> None | e # _ \<Rightarrow> Some e)"
proof -
  from assms obtain l p0 where
    about: "find_about_page env l (extract_company_name (soup r) (empty_profile url)) = Inr p0"
    and p: "p = scrape_sections env (soup r) l p0"
    by (rule extract_profile_Inr)
  from find_about_page_frame(7) [OF about] have "email (contact_info p0) = None"
    by (simp add: frames empty_profile_def)
  with p show ?thesis
    by (simp add: scrape_sections_email split: list.split)
qed

text \<open>
  When the main page is fetched, the run returns a profile unless collecting the links
  or the About loop raises.
\<close>

lemma fetched_run:
  assumes "requests_get env url 15 = Returns r" and "raise_for_status r = None"
  shows "scrape_company_profile env url = extract_profile env url r"
  using assms by (simp add: scrape_company_profile_def)

lemma fetched_run_returns:
  assumes "requests_get env url 15 = Returns r" and "raise_for_status r = None"
    and "collect_links env r = Inr l" and "find_about env l None = Inr u"
  shows "\<exists>p. scrape_company_profile env url = Inr p"
  using assms
  by (simp add: fetched_run extract_profile_def Let_def find_about_page_def frames empty_profile_def)

text \<open>
  C8 (as amended): when the main page is fetched and the run returns a profile, \<open>email\<close>
  is the first match of the e-mail pattern in the text of the page that, in lower case,
  holds none of "example.com", "domain.com" and "email.com" anywhere in it; it is \<open>None\<close>
  when there is no such match.
\<close>

theorem contact_email_first_unfiltered:
  assumes "scrape_company_profile env url = Inr p"
    and "requests_get env url 15 = Returns r" and "raise_for_status r = None"
  shows "email (contact_info p)
         = (case filter (\<lambda>e. \<not> list_ex (\<lambda>x. str_in x (lower (tables env) e))
                                   (map str [''example.com'', ''domain.com'', ''email.com'']))
                  (map fst (re_findall (email_pattern (tables env)) (get_text (soup r)))) of
              [] \<Rightarrow> None
            | e # _ \<Rightarrow> Some e)"
proof -
  from assms have "extract_profile env url r = Inr p"
    by (simp add: fetched_run)
  then show ?thesis
    by (simp add: extract_profile_email find_emails_def email_blocklist_def)
qed

text \<open>The theorem on the two examples of the claim.\<close>

theorem contact_email_witness:
  "scrape_company_profile
       (demo_env (home_site [element ''p'' [] [text_node ''Contact us at sales@acme.com today'']]))
       (str ''https://acme.com/'')
     = Inr \<lparr>company_name = None, website = str ''https://acme.com/'',
            about_us = \<lparr>description = None, page_url = None\<rparr>,
            services = [], clients = [], process = [], articles = [],
            contact_info = \<lparr>contact_page = None, email = Some (str ''sales@acme.com''), phone = None,
                            address = None\<rparr>,
            careers = \<lparr>careers_page_url = None\<rparr>,
            policies = \<lparr>privacy_policy = None, returns_policy = None, terms_of_service = None\<rparr>\<rparr>
   \<and> Some (str ''sales@acme.com'')
     = (case filter (\<lambda>e. \<not> list_ex (\<lambda>x. str_in x (lower (tables (demo_env
                              (home_site [element ''p'' [] [text_node ''Contact us at sales@acme.com today'']]))) e))
                                   (map str [''example.com'', ''domain.com'', ''email.com'']))
                  (map fst (re_findall (email_pattern (tables (demo_env
                              (home_site [element ''p'' [] [text_node ''Contact us at sales@acme.com today'']]))))
                     (get_text (soup (home_response
                        [element ''p'' [] [text_node ''Contact us at sales@acme.com today'']]))))) of
              [] \<Rightarrow> None
            | e # _ \<Rightarrow> Some e)
   \<and> scrape_company_profile
       (demo_env (home_site [element ''p'' [] [text_node ''reach us at example@example.com'']]))
       (str ''https://acme.com/'')
     = Inr \<lparr>company_name = None, website = str ''https://acme.com/'',
            about_us = \<lparr>description = None, page_url = None\<rparr>,
            services = [], clients = [], process = [], articles = [],
            contact_info = \<lparr>contact_page = None, email = None, phone = None, address = None\<rparr>,
            careers = \<lparr>careers_page_url = None\<rparr>,
            policies = \<lparr>privacy_policy = None, returns_policy = None, terms_of_service = None\<rparr>\<rparr>"
proof -
  have get: "requests_get (demo_env (home_site cs)) (str ''https://acme.com/'') 15 = Returns (home_response cs)"
    for cs
    by (simp add: demo_env_def demo_get_def home_site_def)
  have ok: "raise_for_status (home_response cs) = None" for cs
    by (simp add: raise_for_status_def home_response_def)
  have run1: "scrape_company_profile
       (demo_env (home_site [element ''p'' [] [text_node ''Contact us at sales@acme.com today'']]))
       (str ''https://acme.com/'')
     = Inr \<lparr>company_name = None, website = str ''https://acme.com/'',
            about_us = \<lparr>description = None, page_url = None\<rparr>,
            services = [], clients = [], process = [], articles = [],
            contact_info = \<lparr>contact_page = None, email = Some (str ''sales@acme.com''), phone = None,
                            address = None\<rparr>,
            careers = \<lparr>careers_page_url = None\<rparr>,
            policies = \<lparr>privacy_policy = None, returns_policy = None, terms_of_service = None\<rparr>\<rparr>"
    by code_simp
  have run2: "scrape_company_profile
       (demo_env (home_site [element ''p'' [] [text_node ''reach us at example@example.com'']]))
       (str ''https://acme.com/'')
     = Inr \<lparr>company_name = None, website = str ''https://acme.com/'',
            about_us = \<lparr>description = None, page_url = None\<rparr>,
            services = [], clients = [], process = [], articles = [],
            contact_info = \<lparr>contact_page = None, email = None, phone = None, address = None\<rparr>,
            careers = \<lparr>careers_page_url = None\<rparr>,
            policies = \<lparr>privacy_policy = None, returns_policy = None, terms_of_service = None\<rparr>\<rparr>"
    by code_simp
  from contact_email_first_unfiltered [OF run1 get ok] run1 run2 show ?thesis
    by (simp only: profile.simps contact_info_rec.simps simp_thms)
qed

text \<open>
  The claim as stated fails for an address whose domain only contains a placeholder
  domain: \<^verbatim>\<open>info@mydomain.com\<close> is matched, its domain \<^verbatim>\<open>mydomain.com\<close> is not in the
  blocklist, and the run leaves \<open>email\<close> at \<open>None\<close>.
\<close>

theorem contact_email_substring_counterexample:
  "map fst (re_findall (email_pattern demo_tables) (str ''Write to info@mydomain.com''))
     = [str ''info@mydomain.com'']
   \<and> email_domain (str ''info@mydomain.com'') = str ''mydomain.com''
   \<and> claimed_email demo_tables (str ''Write to info@mydomain.com'') = Some (str ''info@mydomain.com'')
   \<and> scrape_company_profile
       (demo_env (home_site [element ''p'' [] [text_node ''Write to info@mydomain.com'']]))
       (str ''https://acme.com/'')
     = Inr \<lparr>company_name = None, website = str ''https://acme.com/'',
            about_us = \<lparr>description = None, page_url = None\<rparr>,
            services = [], clients = [], process = [], articles = [],
            contact_info = \<lparr>contact_page = None, email = None, phone = None, address = None\<rparr>,
            careers = \<lparr>careers_page_url = None\<rparr>,
            policies = \<lparr>privacy_policy = None, returns_policy = None, terms_of_service = None\<rparr>\<rparr>"
  by code_simp

section \<open>C9: the steps of an ordered list\<close>











lemma extract_profile_process:
  assumes "extract_profile env url r = Inr p"
  shows "process p = process_loop (tables env) (soup r) []"
proof -
  from assms obtain l p0 where
    about: "find_about_page env l (extract_company_name (soup r) (empty_profile url)) = Inr p0"
    and p: "p = scrape_sections env (soup r) l p0"
    by (rule extract_profile_Inr)
  from find_about_page_frame(5) [OF about] have "process p0 = []"
    by (simp add: frames empty_profile_def)
  with p show ?thesis
    by (simp add: scrape_sections_fields)
qed




section \<open>Text that is not ASCII, and exceptions after the fetch\<close>

text \<open>
  \<^verbatim>\<open>strip\<close> takes off a no-break space: a title made of "Acme Corp", U+00A0 and
  "| Home" gives the name "Acme Corp".
\<close>

lemma strip_no_break_space:
  "py_isspace 160
   \<and> from_title (document nbsp_title_home) None = Some (str ''Acme Corp'')"
  by code_simp

text \<open>
  \<^verbatim>\<open>\b\<close> and \<^verbatim>\<open>\w\<close> follow the Unicode tables: right after two letters there is no word
  boundary, so the address is not matched and \<open>email\<close> stays \<open>None\<close>; the same text after
  a space is matched.
\<close>

lemma word_boundary_after_letters:
  "find_emails cjk_tables (get_text (document cjk_email_home)) = []
   \<and> email (contact_info (extract_contact ((demo_env [])\<lparr>tables := cjk_tables\<rparr>) (document cjk_email_home)
        (empty_profile (str ''https://acme.com/'')))) = None
   \<and> find_emails cjk_tables ([32852, 31995, 32] @ str ''info@acme.com'') = [str ''info@acme.com'']"
  by code_simp

text \<open>
  \<^verbatim>\<open>len\<close> counts characters: the item made of "Id", U+00E9 and "e!" has five (and six
  bytes in UTF-8), and is left out.
\<close>

lemma length_counts_characters:
  "process_loop demo_tables (document accent_item_home) []
   = [\<lparr>step = 2, step_description = str ''Build things''\<rparr>]"
  by code_simp

text \<open>
  An exception of \<^verbatim>\<open>urljoin\<close> or \<^verbatim>\<open>urlparse\<close> while the links are collected (lines 150
  and 153) is outside every \<^verbatim>\<open>try\<close>: the run raises it and returns no profile.
\<close>

lemma collect_links_raises:
  assumes "requests_get env url 15 = Returns r" and "raise_for_status r = None"
    and "collect_links env r = Inl e"
  shows "scrape_company_profile env url = Inl e"
  using assms by (simp add: scrape_company_profile_def extract_profile_def)

lemma bad_href_raises:
  "scrape_company_profile (demo_env (home_site bad_href_home)) (str ''https://acme.com/'') = Inl ValueError"
  by code_simp

text \<open>
  An exception of \<^verbatim>\<open>urljoin\<close> in the loop over the posts (line 371) is caught at line
  376: the post before it stays, the posts after it are not read.
\<close>

lemma articles_before_exception_stay:
  "scrape_company_profile (demo_env broken_blog_site) (str ''https://acme.com/'') =
     Inr \<lparr>company_name = None, website = str ''https://acme.com/'',
          about_us = \<lparr>description = None, page_url = None\<rparr>,
          services = [], clients = [], process = [],
          articles = [\<lparr>title = str ''Launch day news'',
                       article_url = Some (str ''https://acme.com/blog/launch'')\<rparr>],
          contact_info = \<lparr>contact_page = None, email = None, phone = None, address = None\<rparr>,
          careers = \<lparr>careers_page_url = None\<rparr>,
          policies = \<lparr>privacy_policy = None, returns_policy = None, terms_of_service = None\<rparr>\<rparr>"
  by code_simp

end
